theory Spec2Isabelle
  imports Complex_Main
begin

section \<open>Domain types (src/types.ts)\<close>

datatype DesignCategory = LIGHTING | COLOR_PALETTE | LAYOUT | TEXTURES | DECOR

text \<open>The string value of each enum member, as a template literal prints it.\<close>

fun category_string :: "DesignCategory \<Rightarrow> string" where
  "category_string LIGHTING = ''Lighting''"
| "category_string COLOR_PALETTE = ''Color Palette''"
| "category_string LAYOUT = ''Layout & Flow''"
| "category_string TEXTURES = ''Textures & Fabrics''"
| "category_string DECOR = ''Decor & Styling''"

datatype LoadingState = Idle | Cleaning | Analyzing | Visualizing

section \<open>JavaScript values and helpers\<close>

text \<open>
  The values \<open>JSON.parse\<close> can return. A number is the double it denotes; the code only
  ever tests it for truthiness, so the finite ones are kept as rationals (both zeros are
  \<open>Finite 0\<close>; \<open>JSON.parse\<close> never yields NaN). An object is its list of own properties.
  \<open>undefined\<close> only arises as the result of a property lookup and is \<open>None\<close> there.
\<close>

datatype js_number = Finite rat | PosInfinity | NegInfinity

datatype js_value =
    JNull
  | JBool bool
  | JNumber js_number
  | JString string
  | JArray "js_value list"
  | JObject "(string \<times> js_value) list"

fun truthy :: "js_value \<Rightarrow> bool" where
  "truthy JNull = False"
| "truthy (JBool b) = b"
| "truthy (JNumber n) = (n \<noteq> Finite 0)"
| "truthy (JString s) = (s \<noteq> [])"
| "truthy (JArray xs) = True"
| "truthy (JObject kvs) = True"

text \<open>What the code can throw.\<close>

datatype error =
    ApiKeyMissing
  | NoImageGenerated
  | RemoteError string
  | SyntaxError
  | TypeError

text \<open>
  \<open>v.advice\<close>: reading a property of \<open>null\<close> throws a TypeError; an object gives its own
  property or \<open>undefined\<close> (no prototype has an \<open>advice\<close>); arrays, strings, numbers and
  booleans have no such property.
\<close>

fun get_advice :: "js_value \<Rightarrow> error + js_value option" where
  "get_advice JNull = Inl TypeError"
| "get_advice (JObject kvs) = Inr (map_of kvs ''advice'')"
| "get_advice v = Inr None"

text \<open>\<open>s || d\<close> on a string that may be null or undefined.\<close>

fun truthy_string :: "string option \<Rightarrow> bool" where
  "truthy_string None = False"
| "truthy_string (Some s) = (s \<noteq> [])"

text \<open>\<open>s.split(',')\<close>: the pieces between the commas; never an empty array.\<close>

fun split_comma :: "string \<Rightarrow> string list" where
  "split_comma [] = [[]]"
| "split_comma (c # cs) =
     (if c = CHR '','' then [] # split_comma cs
      else (case split_comma cs of
              p # ps \<Rightarrow> (c # p) # ps
            | [] \<Rightarrow> [[c]]))"

text \<open>\<open>xs[i]\<close>, which is \<open>undefined\<close> out of range.\<close>

fun index_opt :: "'a list \<Rightarrow> nat \<Rightarrow> 'a option" where
  "index_opt [] i = None"
| "index_opt (x # xs) 0 = Some x"
| "index_opt (x # xs) (Suc i) = index_opt xs i"

text \<open>
  \<open>xs.slice(start, end)\<close> for integral arguments: a negative index counts from the end
  of the array, and both indices are clamped to the array.
\<close>

definition slice :: "'a list \<Rightarrow> int \<Rightarrow> int \<Rightarrow> 'a list" where
  "slice xs start fin =
     (let len = int (length xs);
          k = (if start < 0 then max (len + start) 0 else min start len);
          final = (if fin < 0 then max (len + fin) 0 else min fin len)
      in take (nat (final - k)) (drop (nat k) xs))"

text \<open>\<open>xs.join(sep)\<close> on strings.\<close>

fun join :: "string \<Rightarrow> string list \<Rightarrow> string" where
  "join sep [] = []"
| "join sep [x] = x"
| "join sep (x # y # ys) = x @ sep @ join sep (y # ys)"

text \<open>A natural number printed in decimal, as \<open>${i+1}\<close> prints it.\<close>

fun digit_char :: "nat \<Rightarrow> char" where
  "digit_char n = char_of (48 + n)"

function toString_nat :: "nat \<Rightarrow> string" where
  "toString_nat n =
     (if n < 10 then [digit_char n] else toString_nat (n div 10) @ [digit_char (n mod 10)])"
  by pat_completeness auto
termination
  by (relation "measure (\<lambda>n. n)") auto

definition nl :: string where
  "nl = [CHR 0x0A]"

section \<open>The remote model's requests and responses\<close>

record blob =
  mimeType :: "string option"
  data :: "string option"

record part =
  inlineData :: "blob option"
  "text" :: "string option"

record content =
  parts :: "part list option"

record candidate =
  content :: "content option"

datatype schema =
    STRING
  | ARRAY schema
  | OBJECT "(string \<times> schema) list"

record config =
  systemInstruction :: string
  responseMimeType :: string
  responseSchema :: schema

record request =
  model :: string
  contents :: content
  config :: "config option"

record response =
  candidates :: "candidate list option"
  response_text :: "string option"

text \<open>
  The world a service call runs in: the API key of the process environment, and the
  remote model, which answers the k-th request of the call (counted from 0) with an error
  or a response. \<open>response_text\<close> above is the \<open>text\<close> accessor of a response.
\<close>

record env =
  API_KEY :: "string option"
  generateContent :: "nat \<Rightarrow> request \<Rightarrow> error + response"

section \<open>The service adapter (src/services/geminiService.ts)\<close>

text \<open>The client stands for the key it was built with.\<close>

definition getClient :: "env \<Rightarrow> error + string" where
  "getClient e =
     (case API_KEY e of
        None \<Rightarrow> Inl ApiKeyMissing
      | Some apiKey \<Rightarrow> if apiKey = [] then Inl ApiKeyMissing else Inr apiKey)"

definition cleanBase64 :: "string \<Rightarrow> string" where
  "cleanBase64 dataUrl =
     (case index_opt (split_comma dataUrl) 1 of
        None \<Rightarrow> dataUrl
      | Some p \<Rightarrow> if p \<noteq> [] then p else dataUrl)"

definition TOP_10_BOOKS :: "string list" where
  "TOP_10_BOOKS =
    [''The Interior Design Handbook by Frida Ramstedt'',
     ''Domino: The Book of Decorating'',
     ''Architectural Digest at 100'',
     ''Habitat: The Field Guide to Decorating by Lauren Liess'',
     ''Elements of Style by Erin Gates'',
     ''Homebody by Joanna Gaines'',
     ''Made for Living by Amber Lewis'',
     ''Live Beautiful by Athena Calderone'',
     ''The Finer Things by Christiane Lemieux'',
     ''Vogue Living: Country, City, Coast'']"

definition image_part :: "string \<Rightarrow> part" where
  "image_part imageBase64 =
     \<lparr>inlineData = Some \<lparr>mimeType = Some ''image/jpeg'', data = Some (cleanBase64 imageBase64)\<rparr>,
      text = None\<rparr>"

definition text_part :: "string \<Rightarrow> part" where
  "text_part t = \<lparr>inlineData = None, text = Some t\<rparr>"

text \<open>\<open>response.candidates?.[0]?.content?.parts || []\<close>\<close>

definition response_parts :: "response \<Rightarrow> part list" where
  "response_parts r =
     (case candidates r of
        None \<Rightarrow> []
      | Some [] \<Rightarrow> []
      | Some (c # cs) \<Rightarrow>
          (case content c of
             None \<Rightarrow> []
           | Some ct \<Rightarrow> (case parts ct of None \<Rightarrow> [] | Some ps \<Rightarrow> ps)))"

text \<open>
  The loop over the parts: the first part with inline data gives the data URL. A blob
  without data prints as \<open>undefined\<close> in the template literal.
\<close>

fun first_image :: "part list \<Rightarrow> string option" where
  "first_image [] = None"
| "first_image (p # ps) =
     (case inlineData p of
        Some b \<Rightarrow>
          Some (''data:image/png;base64,'' @ (case data b of Some d \<Rightarrow> d | None \<Rightarrow> ''undefined''))
      | None \<Rightarrow> first_image ps)"

subsection \<open>cleanRoomImage\<close>

definition clean_prompt :: string where
  \<open>clean_prompt = ''Act as a professional home organizer and interior photographer. Your task is to 'digitally declutter' this room. 1) Remove all loose items from floors, tables, and countertops (papers, clothes, toys, trash). 2) Straighten rugs, pillows, and curtains. 3) Keep the architectural structure, lighting, flooring, and main furniture pieces EXACTLY as they are. Do not change the wall color or furniture style. The goal is to make the room look like it was just tidied up for a real estate listing.''\<close>

definition clean_request :: "string \<Rightarrow> request" where
  "clean_request imageBase64 =
     \<lparr>model = ''gemini-2.5-flash-image'',
      contents = \<lparr>parts = Some [image_part imageBase64, text_part clean_prompt]\<rparr>,
      config = None\<rparr>"

text \<open>
  Every service function returns the requests it sent to the remote model, in the order
  it sent them, and its result; \<open>Inl\<close> is a rejected promise. A catch block that logs
  and throws the error again leaves the error as it is; the logging is not modelled.
\<close>

definition cleanRoomImage :: "env \<Rightarrow> string \<Rightarrow> request list \<times> (error + string)" where
  "cleanRoomImage e imageBase64 =
     (case getClient e of
        Inl err \<Rightarrow> ([], Inl err)
      | Inr ai \<Rightarrow>
          ([clean_request imageBase64],
           (case generateContent e 0 (clean_request imageBase64) of
              Inl err \<Rightarrow> Inl err
            | Inr resp \<Rightarrow>
                (case first_image (response_parts resp) of
                   Some url \<Rightarrow> Inr url
                 | None \<Rightarrow> Inl NoImageGenerated))))"

subsection \<open>analyzeRoomDesign\<close>

definition numbered_books :: "string list" where
  "numbered_books =
     map (\<lambda>(i, b). toString_nat (i + 1) @ ''. '' @ b) (enumerate 0 TOP_10_BOOKS)"

definition systemInstruction_text :: string where
  \<open>systemInstruction_text =
     nl @ ''    You are a Senior Interior Design Architect. Your advice is strictly grounded in the principles found in the top 10 interior design books:'' @
     nl @ ''    '' @ join nl numbered_books @
     nl @
     nl @ ''    RULES:'' @
     nl @ ''    1. ANALYZE the image accurately. Do not hallucinate furniture or windows that are not there.'' @
     nl @ ''    2. Suggest improvements based ONLY on the user's selected category.'' @
     nl @ ''    3. For every piece of advice, you MUST cite a specific principle or concept from one of the books above.'' @
     nl @ ''    4. Be concise and actionable.'' @
     nl @ ''  ''\<close>

definition analysis_prompt :: "DesignCategory \<Rightarrow> string" where
  \<open>analysis_prompt category =
     nl @ ''    Analyze this room photo.'' @
     nl @ ''    Focus specifically on the category: "'' @ category_string category @ ''".'' @
     nl @ ''    '' @
     nl @ ''    Provide 4 distinct, actionable design improvements. '' @
     nl @ ''    '' @
     nl @ ''    Return the response as a JSON object with the following schema:'' @
     nl @ ''    {'' @
     nl @ ''      "advice": ['' @
     nl @ ''        { "title": "Headline", "description": "Detailed advice", "principleSource": "Book Name: Principle Name" }'' @
     nl @ ''      ]'' @
     nl @ ''    }'' @
     nl @ ''  ''\<close>

definition advice_schema :: schema where
  "advice_schema =
     OBJECT [(''advice'',
       ARRAY (OBJECT [(''title'', STRING), (''description'', STRING),
                      (''principleSource'', STRING)]))]"

definition analysis_request :: "string \<Rightarrow> DesignCategory \<Rightarrow> request" where
  "analysis_request imageBase64 category =
     \<lparr>model = ''gemini-3-pro-preview'',
      contents = \<lparr>parts = Some [image_part imageBase64, text_part (analysis_prompt category)]\<rparr>,
      config = Some \<lparr>systemInstruction = systemInstruction_text,
                     responseMimeType = ''application/json'',
                     responseSchema = advice_schema\<rparr>\<rparr>"

text \<open>\<open>response.text || "{}"\<close>\<close>

definition text_or_empty_object :: "response \<Rightarrow> string" where
  \<open>text_or_empty_object resp =
     (case response_text resp of
        None \<Rightarrow> ''{}''
      | Some t \<Rightarrow> if t \<noteq> [] then t else ''{}'')\<close>

text \<open>
  \<open>JSON.parse\<close> belongs to the language, not to this repository: it is the parameter
  \<open>JSON_parse\<close>, which gives \<open>None\<close> where \<open>JSON.parse\<close> throws a SyntaxError.
  The result is what \<open>json.advice || []\<close> evaluates to; nothing checks that it is an
  array of advice records.
\<close>

definition analyzeRoomDesign ::
  "(string \<Rightarrow> js_value option) \<Rightarrow> env \<Rightarrow> string \<Rightarrow> DesignCategory
     \<Rightarrow> request list \<times> (error + js_value)" where
  "analyzeRoomDesign JSON_parse e imageBase64 category =
     (case getClient e of
        Inl err \<Rightarrow> ([], Inl err)
      | Inr ai \<Rightarrow>
          ([analysis_request imageBase64 category],
           (case generateContent e 0 (analysis_request imageBase64 category) of
              Inl err \<Rightarrow> Inl err
            | Inr resp \<Rightarrow>
                (case JSON_parse (text_or_empty_object resp) of
                   None \<Rightarrow> Inl SyntaxError
                 | Some json \<Rightarrow>
                     (case get_advice json of
                        Inl err \<Rightarrow> Inl err
                      | Inr None \<Rightarrow> Inr (JArray [])
                      | Inr (Some a) \<Rightarrow> Inr (if truthy a then a else JArray []))))))"

subsection \<open>generateDesignVisualizations\<close>

definition variations :: "DesignCategory \<Rightarrow> string list" where
  \<open>variations category =
     (case category of
        LIGHTING \<Rightarrow>
          [''Apply the 'Layered Lighting' principle. Show Ambient lighting as the base layer for overall illumination.'',
           ''Apply the 'Task Lighting' principle. Focus on direct light for reading or working areas (lamps, under-cabinet).'',
           ''Apply the 'Accent Lighting' principle. Highlight architectural features or art with directional spotlights.'',
           ''Apply the 'Atmospheric/Mood Lighting' principle. Use warm color temperatures, dimmers, and soft diffusers for a cozy vibe.'']
      | LAYOUT \<Rightarrow>
          [''Layout Principle: 'The Triangle of Flow'. Optimize pathways between major furniture pieces for easy movement.'',
           ''Layout Principle: 'Social Convergence'. Arrange furniture to face each other to encourage conversation (circular or U-shape).'',
           ''Layout Principle: 'Zoning'. Create distinct functional zones (e.g. reading nook vs watching TV) using rugs or furniture placement.'',
           ''Layout Principle: 'Symmetry and Balance'. Create a formal, mirror-image arrangement for a calm, stable look.'']
      | COLOR_PALETTE \<Rightarrow>
          [''Color Theory: Monochromatic harmony. Use varying shades of a single dominant color found in the room.'',
           ''Color Theory: Analogous colors. Use colors that sit next to each other on the color wheel for a serene look.'',
           ''Color Theory: Complementary contrast. Introduce accents that are opposite on the color wheel to the main room color.'',
           ''Color Theory: The 60-30-10 Rule. 60% dominant neutral, 30% secondary color, 10% bold accent color.'']
      | _ \<Rightarrow>
          [''Design Style: Minimalist and Modern. Clean lines, decluttered surfaces, functional furniture.'',
           ''Design Style: Organic Modern (Biophilic). Introduce plants, natural wood textures, and soft curves.'',
           ''Design Style: Transitional. Blend traditional warmth with modern lines.'',
           ''Design Style: Eclectic. Mix textures, eras, and patterns for a collected, curated look.''])\<close>

definition fullPrompt :: "string \<Rightarrow> string" where
  \<open>fullPrompt variationDescription =
     nl @ ''      Create a photorealistic visualization of this room.'' @
     nl @ ''      Keep the room's main structure (walls, windows, floor type) exactly the same.'' @
     nl @ ''      Apply this design principle: '' @ variationDescription @ ''.'' @
     nl @ ''      Make it look like a high-end interior design portfolio shot.'' @
     nl @ ''    ''\<close>

definition variation_request :: "string \<Rightarrow> string \<Rightarrow> request" where
  "variation_request imageBase64 variationDescription =
     \<lparr>model = ''gemini-2.5-flash-image'',
      contents = \<lparr>parts = Some [image_part imageBase64,
                                 text_part (fullPrompt variationDescription)]\<rparr>,
      config = None\<rparr>"

text \<open>
  The body of the async callback for the i-th selected variation: any error of the
  request is caught and gives \<open>null\<close>, as does a response with no image part.
\<close>

definition generate_variation :: "env \<Rightarrow> string \<Rightarrow> nat \<Rightarrow> string \<Rightarrow> string option" where
  "generate_variation e imageBase64 i variationDescription =
     (case generateContent e i (variation_request imageBase64 variationDescription) of
        Inl err \<Rightarrow> None
      | Inr result \<Rightarrow> first_image (response_parts result))"

text \<open>
  The callbacks start in the order of the selected variations, so the i-th variation is
  the i-th request; \<open>Promise.all\<close> keeps the results in that order whatever the order of
  completion, and the final filter drops the nulls. The count is an integer here (the
  only caller passes 4, which is also the default).
\<close>

definition generateDesignVisualizations ::
  "env \<Rightarrow> string \<Rightarrow> DesignCategory \<Rightarrow> int \<Rightarrow> request list \<times> (error + string list)" where
  "generateDesignVisualizations e imageBase64 category count =
     (case getClient e of
        Inl err \<Rightarrow> ([], Inl err)
      | Inr ai \<Rightarrow>
          (let selectedVariations = slice (variations category) 0 count;
               results = map (\<lambda>(i, v). generate_variation e imageBase64 i v)
                           (enumerate 0 selectedVariations)
           in (map (variation_request imageBase64) selectedVariations,
               Inr (map the (filter (\<lambda>url. url \<noteq> None) results)))))"

section \<open>The workflow controller (src/App.tsx)\<close>

text \<open>
  The state of the component that the handlers read and write. The \<open>advice\<close> state holds
  whatever \<open>analyzeRoomDesign\<close> resolved to. (\<open>isDragging\<close> and the file input's ref
  only serve the view and are left out.)
\<close>

record app_state =
  originalImage :: "string option"
  cleanImage :: "string option"
  isCleanMode :: bool
  loadingState :: LoadingState
  selectedCategory :: DesignCategory
  advice :: js_value
  visualizations :: "string list"
  error :: "string option"

definition initial_state :: app_state where
  "initial_state =
     \<lparr>originalImage = None, cleanImage = None, isCleanMode = False, loadingState = Idle,
      selectedCategory = LIGHTING, advice = JArray [], visualizations = [], error = None\<rparr>"

text \<open>
  What a handler does besides updating the state, in order: the loading states it sets,
  the service functions it calls with their arguments, and the requests those send to the
  remote model.
\<close>

datatype event =
    SetLoadingState LoadingState
  | CleanRoomImage string
  | AnalyzeRoomDesign string DesignCategory
  | GenerateDesignVisualizations string DesignCategory int
  | Remote request

fun loading_of :: "event \<Rightarrow> LoadingState option" where
  "loading_of (SetLoadingState l) = Some l"
| "loading_of ev = None"

fun request_of :: "event \<Rightarrow> request option" where
  "request_of (Remote r) = Some r"
| "request_of ev = None"

text \<open>The loading states a handler run goes through, from the one it starts in.\<close>

definition loading_trace :: "app_state \<Rightarrow> event list \<Rightarrow> LoadingState list" where
  "loading_trace s evs = loadingState s # List.map_filter loading_of evs"

definition remote_requests :: "event list \<Rightarrow> request list" where
  "remote_requests evs = List.map_filter request_of evs"

text \<open>The \<open>onload\<close> callback of \<open>processFile\<close>, with the data URL the reader produced.\<close>

definition processFile :: "string \<Rightarrow> app_state \<Rightarrow> app_state \<times> event list" where
  "processFile result s =
     (s\<lparr>originalImage := Some result, cleanImage := None, isCleanMode := False,
        advice := JArray [], visualizations := [], error := None\<rparr>, [])"

text \<open>\<open>isCleanMode && cleanImage ? cleanImage : originalImage\<close>\<close>

definition activeImage :: "app_state \<Rightarrow> string option" where
  "activeImage s =
     (if isCleanMode s \<and> truthy_string (cleanImage s) then cleanImage s else originalImage s)"

definition handleCleanCheck :: "env \<Rightarrow> bool \<Rightarrow> app_state \<Rightarrow> app_state \<times> event list" where
  "handleCleanCheck e checked s =
     (case originalImage s of
        None \<Rightarrow> (s, [])
      | Some original \<Rightarrow>
          if original = [] then (s, [])
          else if \<not> checked then (s\<lparr>isCleanMode := False\<rparr>, [])
          else if truthy_string (cleanImage s) then (s\<lparr>isCleanMode := True\<rparr>, [])
          else
            (case cleanRoomImage e original of
               (reqs, Inr cleaned) \<Rightarrow>
                 (s\<lparr>error := None, cleanImage := Some cleaned, isCleanMode := True,
                    loadingState := Idle\<rparr>,
                  [SetLoadingState Cleaning, CleanRoomImage original] @ map Remote reqs
                    @ [SetLoadingState Idle])
             | (reqs, Inl err) \<Rightarrow>
                 (s\<lparr>error := Some ''Could not clean the room. Please try again.'',
                    isCleanMode := False, loadingState := Idle\<rparr>,
                  [SetLoadingState Cleaning, CleanRoomImage original] @ map Remote reqs
                    @ [SetLoadingState Idle])))"

definition analysis_failed :: string where
  "analysis_failed = ''Analysis failed. The AI might be busy, please try again.''"

text \<open>
  \<open>handleAnalysis\<close>. The two service calls are awaited one after the other, each in the
  world as it is when the call is made (\<open>e1\<close>, then \<open>e2\<close>).
\<close>

definition handleAnalysis ::
  "(string \<Rightarrow> js_value option) \<Rightarrow> env \<Rightarrow> env \<Rightarrow> app_state \<Rightarrow> app_state \<times> event list" where
  "handleAnalysis JSON_parse e1 e2 s =
     (case originalImage s of
        None \<Rightarrow> (s, [])
      | Some original \<Rightarrow>
          if original = [] then (s, [])
          else
            (let imageToAnalyze =
                   (case cleanImage s of
                      None \<Rightarrow> original
                    | Some cleaned \<Rightarrow> if isCleanMode s \<and> cleaned \<noteq> [] then cleaned else original);
                 category = selectedCategory s;
                 s1 = s\<lparr>loadingState := Analyzing, advice := JArray [], visualizations := [],
                        error := None\<rparr>
             in (case analyzeRoomDesign JSON_parse e1 imageToAnalyze category of
                   (reqs1, Inl err) \<Rightarrow>
                     (s1\<lparr>error := Some analysis_failed, loadingState := Idle\<rparr>,
                      [SetLoadingState Analyzing, AnalyzeRoomDesign imageToAnalyze category]
                        @ map Remote reqs1 @ [SetLoadingState Idle])
                 | (reqs1, Inr adviceResult) \<Rightarrow>
                     (let s2 = s1\<lparr>advice := adviceResult, loadingState := Visualizing\<rparr>
                      in (case generateDesignVisualizations e2 imageToAnalyze category 4 of
                            (reqs2, Inl err) \<Rightarrow>
                              (s2\<lparr>error := Some analysis_failed, loadingState := Idle\<rparr>,
                               [SetLoadingState Analyzing,
                                AnalyzeRoomDesign imageToAnalyze category]
                                 @ map Remote reqs1
                                 @ [SetLoadingState Visualizing,
                                    GenerateDesignVisualizations imageToAnalyze category 4]
                                 @ map Remote reqs2 @ [SetLoadingState Idle])
                          | (reqs2, Inr visualResult) \<Rightarrow>
                              (s2\<lparr>visualizations := visualResult, loadingState := Idle\<rparr>,
                               [SetLoadingState Analyzing,
                                AnalyzeRoomDesign imageToAnalyze category]
                                 @ map Remote reqs1
                                 @ [SetLoadingState Visualizing,
                                    GenerateDesignVisualizations imageToAnalyze category 4]
                                 @ map Remote reqs2 @ [SetLoadingState Idle]))))))"

text \<open>
  The states of a session in which every handler runs to its end before the next user
  action: the initial state, and what an upload, a toggle of the clean checkbox, a
  category selection or a Generate leaves behind.
\<close>

inductive reachable :: "app_state \<Rightarrow> bool" where
  start: "reachable initial_state"
| upload: "reachable s \<Longrightarrow> reachable (fst (processFile result s))"
| clean_check: "reachable s \<Longrightarrow> reachable (fst (handleCleanCheck e checked s))"
| select: "reachable s \<Longrightarrow> reachable (s\<lparr>selectedCategory := c\<rparr>)"
| generate: "reachable s \<Longrightarrow> reachable (fst (handleAnalysis JSON_parse e1 e2 s))"

section \<open>Handlers in flight\<close>

text \<open>
  An async handler runs up to its \<open>await\<close> and goes on when the awaited call settles;
  in between, the component renders and other handlers may run. Each handler is therefore
  cut at its awaits. The part after an await works on the values its closure captured when
  the handler began (the image to analyse and the category) and writes the state with
  plain setter calls. A call that was made and has not settled yet is in flight.
\<close>

datatype pending_call =
    PendingClean string
  | PendingAnalyze string DesignCategory
  | PendingVisualize string DesignCategory

text \<open>
  The component with its calls in flight, and the loading states it has had so far, oldest
  first.
\<close>

record system =
  app :: app_state
  in_flight :: "pending_call list"
  shown :: "LoadingState list"

definition start_system :: "app_state \<Rightarrow> system" where
  "start_system s = \<lparr>app = s, in_flight = [], shown = [loadingState s]\<rparr>"

text \<open>
  \<open>handleCleanCheck\<close> up to its await: the new state, the loading states it set and the
  call it left in flight.
\<close>

definition handleCleanCheck_begin ::
  "bool \<Rightarrow> app_state \<Rightarrow> app_state \<times> LoadingState list \<times> pending_call list" where
  "handleCleanCheck_begin checked s =
     (case originalImage s of
        None \<Rightarrow> (s, [], [])
      | Some original \<Rightarrow>
          if original = [] then (s, [], [])
          else if \<not> checked then (s\<lparr>isCleanMode := False\<rparr>, [], [])
          else if truthy_string (cleanImage s) then (s\<lparr>isCleanMode := True\<rparr>, [], [])
          else (s\<lparr>loadingState := Cleaning, error := None\<rparr>, [Cleaning],
                [PendingClean original]))"

text \<open>\<open>handleCleanCheck\<close> from the moment \<open>cleanRoomImage\<close> settles.\<close>

definition handleCleanCheck_settled ::
  "error + string \<Rightarrow> app_state \<Rightarrow> app_state \<times> LoadingState list" where
  "handleCleanCheck_settled outcome s =
     (case outcome of
        Inr cleaned \<Rightarrow>
          (s\<lparr>cleanImage := Some cleaned, isCleanMode := True, loadingState := Idle\<rparr>, [Idle])
      | Inl err \<Rightarrow>
          (s\<lparr>error := Some ''Could not clean the room. Please try again.'',
             isCleanMode := False, loadingState := Idle\<rparr>, [Idle]))"

text \<open>\<open>handleAnalysis\<close> up to its first await.\<close>

definition handleAnalysis_begin ::
  "app_state \<Rightarrow> app_state \<times> LoadingState list \<times> pending_call list" where
  "handleAnalysis_begin s =
     (case originalImage s of
        None \<Rightarrow> (s, [], [])
      | Some original \<Rightarrow>
          if original = [] then (s, [], [])
          else
            (let imageToAnalyze =
                   (case cleanImage s of
                      None \<Rightarrow> original
                    | Some cleaned \<Rightarrow> if isCleanMode s \<and> cleaned \<noteq> [] then cleaned else original)
             in (s\<lparr>loadingState := Analyzing, advice := JArray [], visualizations := [],
                   error := None\<rparr>,
                 [Analyzing], [PendingAnalyze imageToAnalyze (selectedCategory s)])))"

text \<open>
  \<open>handleAnalysis\<close> from the moment \<open>analyzeRoomDesign\<close> settles up to the second await;
  on a rejection the catch and finally blocks end the run.
\<close>

definition handleAnalysis_analyzed ::
  "string \<Rightarrow> DesignCategory \<Rightarrow> error + js_value \<Rightarrow> app_state
     \<Rightarrow> app_state \<times> LoadingState list \<times> pending_call list" where
  "handleAnalysis_analyzed imageToAnalyze category outcome s =
     (case outcome of
        Inl err \<Rightarrow> (s\<lparr>error := Some analysis_failed, loadingState := Idle\<rparr>, [Idle], [])
      | Inr adviceResult \<Rightarrow>
          (s\<lparr>advice := adviceResult, loadingState := Visualizing\<rparr>, [Visualizing],
           [PendingVisualize imageToAnalyze category]))"

text \<open>\<open>handleAnalysis\<close> from the moment \<open>generateDesignVisualizations\<close> settles.\<close>

definition handleAnalysis_visualized ::
  "error + string list \<Rightarrow> app_state \<Rightarrow> app_state \<times> LoadingState list" where
  "handleAnalysis_visualized outcome s =
     (case outcome of
        Inl err \<Rightarrow> (s\<lparr>error := Some analysis_failed, loadingState := Idle\<rparr>, [Idle])
      | Inr visualResult \<Rightarrow> (s\<lparr>visualizations := visualResult, loadingState := Idle\<rparr>, [Idle]))"

text \<open>The oldest call of a kind in flight, and the other calls.\<close>

fun oldest_clean :: "pending_call list \<Rightarrow> (string \<times> pending_call list) option" where
  "oldest_clean [] = None"
| "oldest_clean (PendingClean img # ps) = Some (img, ps)"
| "oldest_clean (p # ps) = map_option (\<lambda>(img, rest). (img, p # rest)) (oldest_clean ps)"

fun oldest_analyze ::
  "pending_call list \<Rightarrow> ((string \<times> DesignCategory) \<times> pending_call list) option" where
  "oldest_analyze [] = None"
| "oldest_analyze (PendingAnalyze img c # ps) = Some ((img, c), ps)"
| "oldest_analyze (p # ps) = map_option (\<lambda>(ic, rest). (ic, p # rest)) (oldest_analyze ps)"

fun oldest_visualize ::
  "pending_call list \<Rightarrow> ((string \<times> DesignCategory) \<times> pending_call list) option" where
  "oldest_visualize [] = None"
| "oldest_visualize (PendingVisualize img c # ps) = Some ((img, c), ps)"
| "oldest_visualize (p # ps) = map_option (\<lambda>(ic, rest). (ic, p # rest)) (oldest_visualize ps)"

text \<open>
  What can happen to the component: the user clicks Generate or the clean checkbox, a file
  that was being read is loaded, or the oldest call of a kind in flight settles, answered
  by the world as it then is.
\<close>

datatype occurrence =
    GenerateClicked
  | CleanToggled
  | FileLoaded string
  | CleanSettles env
  | AnalyzeSettles env
  | VisualizeSettles env

text \<open>
  One occurrence, or \<open>None\<close> where the view does not allow it. The view shows the button
  and the checkbox once there is an original image. The button carries
  \<open>disabled={loadingState !== 'idle'}\<close>; the checkbox carries
  \<open>disabled={loadingState === 'cleaning'}\<close> and, being controlled by \<open>isCleanMode\<close>,
  reports the opposite of \<open>isCleanMode\<close> when clicked. A call can only settle when it is in
  flight.
\<close>

fun occur :: "(string \<Rightarrow> js_value option) \<Rightarrow> occurrence \<Rightarrow> system \<Rightarrow> system option" where
  "occur JSON_parse GenerateClicked sy =
     (if truthy_string (originalImage (app sy)) \<and> loadingState (app sy) = Idle
      then (case handleAnalysis_begin (app sy) of
              (s, ls, ps) \<Rightarrow>
                Some \<lparr>app = s, in_flight = in_flight sy @ ps, shown = shown sy @ ls\<rparr>)
      else None)"
| "occur JSON_parse CleanToggled sy =
     (if truthy_string (originalImage (app sy)) \<and> loadingState (app sy) \<noteq> Cleaning
      then (case handleCleanCheck_begin (\<not> isCleanMode (app sy)) (app sy) of
              (s, ls, ps) \<Rightarrow>
                Some \<lparr>app = s, in_flight = in_flight sy @ ps, shown = shown sy @ ls\<rparr>)
      else None)"
| "occur JSON_parse (FileLoaded result) sy =
     Some \<lparr>app = fst (processFile result (app sy)), in_flight = in_flight sy,
           shown = shown sy\<rparr>"
| "occur JSON_parse (CleanSettles e) sy =
     (case oldest_clean (in_flight sy) of
        None \<Rightarrow> None
      | Some (img, rest) \<Rightarrow>
          (case handleCleanCheck_settled (snd (cleanRoomImage e img)) (app sy) of
             (s, ls) \<Rightarrow> Some \<lparr>app = s, in_flight = rest, shown = shown sy @ ls\<rparr>))"
| "occur JSON_parse (AnalyzeSettles e) sy =
     (case oldest_analyze (in_flight sy) of
        None \<Rightarrow> None
      | Some ((img, c), rest) \<Rightarrow>
          (case handleAnalysis_analyzed img c (snd (analyzeRoomDesign JSON_parse e img c))
                  (app sy) of
             (s, ls, ps) \<Rightarrow> Some \<lparr>app = s, in_flight = rest @ ps, shown = shown sy @ ls\<rparr>))"
| "occur JSON_parse (VisualizeSettles e) sy =
     (case oldest_visualize (in_flight sy) of
        None \<Rightarrow> None
      | Some ((img, c), rest) \<Rightarrow>
          (case handleAnalysis_visualized (snd (generateDesignVisualizations e img c 4))
                  (app sy) of
             (s, ls) \<Rightarrow> Some \<lparr>app = s, in_flight = rest, shown = shown sy @ ls\<rparr>))"

fun run :: "(string \<Rightarrow> js_value option) \<Rightarrow> occurrence list \<Rightarrow> system \<Rightarrow> system option" where
  "run JSON_parse [] sy = Some sy"
| "run JSON_parse (oc # ocs) sy =
     (case occur JSON_parse oc sy of
        None \<Rightarrow> None
      | Some sy' \<Rightarrow> run JSON_parse ocs sy')"

section \<open>Observations on traces and states\<close>

text \<open>The service calls among the events of a handler run.\<close>

fun is_service_call :: "event \<Rightarrow> bool" where
  "is_service_call (SetLoadingState l) = False"
| "is_service_call (Remote r) = False"
| "is_service_call ev = True"

definition service_calls :: "event list \<Rightarrow> event list" where
  "service_calls evs = filter is_service_call evs"

text \<open>The image payload a request carries: the inline data of its first part.\<close>

definition request_image :: "request \<Rightarrow> string option" where
  "request_image r =
     (case parts (contents r) of
        Some (p # ps) \<Rightarrow> (case inlineData p of Some b \<Rightarrow> data b | None \<Rightarrow> None)
      | _ \<Rightarrow> None)"

text \<open>
  What holds of the state between the handler runs of a session: a cached cleaned image is
  never the empty string, clean mode is only on with a cleaned image, a cleaned image is
  only cached for a non-empty original, and no phase is in flight.
\<close>

definition session_inv :: "app_state \<Rightarrow> bool" where
  "session_inv s =
     (cleanImage s \<noteq> Some [] \<and> (isCleanMode s \<longrightarrow> cleanImage s \<noteq> None)
      \<and> (cleanImage s \<noteq> None \<longrightarrow> truthy_string (originalImage s))
      \<and> loadingState s = Idle)"

section \<open>Sample responses, worlds and states\<close>

definition image_response :: "string \<Rightarrow> response" where
  "image_response d =
     \<lparr>candidates = Some [\<lparr>content = Some \<lparr>parts = Some
        [\<lparr>inlineData = Some \<lparr>mimeType = Some ''image/png'', data = Some d\<rparr>, text = None\<rparr>]\<rparr>\<rparr>],
      response_text = None\<rparr>"

definition text_response :: "string \<Rightarrow> response" where
  "text_response t =
     \<lparr>candidates = Some [\<lparr>content = Some \<lparr>parts = Some [text_part t]\<rparr>\<rparr>],
      response_text = Some t\<rparr>"

text \<open>A remote model that answers the i-th request with an image of i + 1 letters.\<close>

definition world_images :: env where
  "world_images =
     \<lparr>API_KEY = Some ''key'',
      generateContent = (\<lambda>i r. Inr (image_response (replicate (Suc i) (CHR ''A''))))\<rparr>"

text \<open>The same, but the third request (index 2) fails.\<close>

definition world_third_fails :: env where
  "world_third_fails =
     \<lparr>API_KEY = Some ''key'',
      generateContent = (\<lambda>i r. if i = 2 then Inl (RemoteError ''503'')
                                else Inr (image_response (replicate (Suc i) (CHR ''A''))))\<rparr>"

definition world_down :: env where
  "world_down = \<lparr>API_KEY = Some ''key'', generateContent = (\<lambda>i r. Inl (RemoteError ''503''))\<rparr>"

definition world_no_key :: env where
  "world_no_key =
     \<lparr>API_KEY = None, generateContent = (\<lambda>i r. Inl (RemoteError ''unreachable''))\<rparr>"

text \<open>A remote model that answers every request with the text \<open>t\<close>.\<close>

definition world_text :: "string \<Rightarrow> env" where
  "world_text t = \<lparr>API_KEY = Some ''key'', generateContent = (\<lambda>i r. Inr (text_response t))\<rparr>"

definition advice_item :: "string \<Rightarrow> js_value" where
  "advice_item t =
     JObject [(''title'', JString t), (''description'', JString ''d''),
              (''principleSource'', JString ''p'')]"

definition four_items :: "js_value list" where
  "four_items = [advice_item ''1'', advice_item ''2'', advice_item ''3'', advice_item ''4'']"

definition four_items_text :: string where
  \<open>four_items_text = ''{"advice":[{"title":"1","description":"d","principleSource":"p"},{"title":"2","description":"d","principleSource":"p"},{"title":"3","description":"d","principleSource":"p"},{"title":"4","description":"d","principleSource":"p"}]}''\<close>

text \<open>Four items again, the first with an empty title.\<close>

definition untitled_items :: "js_value list" where
  "untitled_items = [advice_item [], advice_item ''2'', advice_item ''3'', advice_item ''4'']"

definition untitled_items_text :: string where
  \<open>untitled_items_text = ''{"advice":[{"title":"","description":"d","principleSource":"p"},{"title":"2","description":"d","principleSource":"p"},{"title":"3","description":"d","principleSource":"p"},{"title":"4","description":"d","principleSource":"p"}]}''\<close>

text \<open>
  A finite part of the graph of \<open>JSON.parse\<close>: the values of the four texts listed. Any
  other text is taken as rejected; the examples only use that for a text that is cut off
  in the middle, which \<open>JSON.parse\<close> rejects.
\<close>

definition JSON_parse_fragment :: "string \<Rightarrow> js_value option" where
  \<open>JSON_parse_fragment =
     map_of
       [(''{}'', JObject []),
        (''{"tips":[]}'', JObject [(''tips'', JArray [])]),
        (four_items_text, JObject [(''advice'', JArray four_items)]),
        (untitled_items_text, JObject [(''advice'', JArray untitled_items)])]\<close>

text \<open>The state after a first upload, and after the room was then tidied.\<close>

definition uploaded :: app_state where
  "uploaded = fst (processFile ''data:image/jpeg;base64,QUJD'' initial_state)"

definition tidied :: app_state where
  "tidied = fst (handleCleanCheck world_images True uploaded)"

section \<open>The specification's wording, for comparison with the code\<close>

text \<open>
  The base64 helper as the specification describes it: with a comma in the string and a
  non-empty rest after the first comma, that rest is the payload; otherwise the string
  itself.
\<close>

definition after_first_comma :: "string \<Rightarrow> string" where
  "after_first_comma s = drop 1 (dropWhile (\<lambda>c. c \<noteq> CHR '','') s)"

definition spec_cleanBase64 :: "string \<Rightarrow> string" where
  "spec_cleanBase64 s =
     (if CHR '','' \<in> set s \<and> after_first_comma s \<noteq> [] then after_first_comma s else s)"

text \<open>
  An advice item as the specification expects it: an object whose title, description and
  principleSource are non-empty strings.
\<close>

definition advice_item_ok :: "js_value \<Rightarrow> bool" where
  "advice_item_ok item =
     (case item of
        JObject kvs \<Rightarrow>
          (case (map_of kvs ''title'', map_of kvs ''description'',
                 map_of kvs ''principleSource'') of
             (Some (JString t), Some (JString d), Some (JString p)) \<Rightarrow>
               t \<noteq> [] \<and> d \<noteq> [] \<and> p \<noteq> []
           | _ \<Rightarrow> False)
      | _ \<Rightarrow> False)"

section \<open>The base64 helper\<close>

lemma split_comma_no_comma: "CHR '','' \<notin> set s \<Longrightarrow> split_comma s = [s]"
  by (induction s) auto

lemma split_comma_head:
  "\<exists>ps. split_comma s = takeWhile (\<lambda>c. c \<noteq> CHR '','') s # ps"
  by (induction s) auto

lemma split_comma_append:
  "CHR '','' \<notin> set a \<Longrightarrow> split_comma (a @ CHR '','' # b) = a # split_comma b"
  by (induction a) auto

lemma after_first_comma_append:
  "CHR '','' \<notin> set a \<Longrightarrow> after_first_comma (a @ CHR '','' # b) = b"
  by (induction a) (auto simp: after_first_comma_def)

lemma after_first_comma_none:
  "CHR '','' \<notin> set s \<Longrightarrow> after_first_comma s = []"
  by (induction s) (auto simp: after_first_comma_def)

lemma cleanBase64_segment:
  "cleanBase64 s =
     (let seg = takeWhile (\<lambda>c. c \<noteq> CHR '','') (after_first_comma s)
      in if seg = [] then s else seg)"
proof (cases "CHR '','' \<in> set s")
  case False
  then show ?thesis
    by (simp add: cleanBase64_def split_comma_no_comma after_first_comma_none)
next
  case True
  then obtain a b where s: "s = a @ CHR '','' # b" and a: "CHR '','' \<notin> set a"
    by (auto dest: split_list_first)
  obtain ps where ps: "split_comma b = takeWhile (\<lambda>c. c \<noteq> CHR '','') b # ps"
    using split_comma_head by blast
  have "index_opt (split_comma s) 1 = Some (takeWhile (\<lambda>c. c \<noteq> CHR '','') b)"
    by (simp add: s split_comma_append[OF a] ps)
  then show ?thesis
    by (simp add: cleanBase64_def s after_first_comma_append[OF a] Let_def)
qed

lemma one_comma_rest:
  assumes "count_list s (CHR '','') \<le> 1"
  shows "CHR '','' \<notin> set (after_first_comma s)"
proof (cases "CHR '','' \<in> set s")
  case False
  then show ?thesis by (simp add: after_first_comma_none)
next
  case True
  then obtain a b where s: "s = a @ CHR '','' # b" and a: "CHR '','' \<notin> set a"
    by (auto dest: split_list_first)
  from assms have "count_list b (CHR '','') = 0" by (simp add: s)
  then show ?thesis by (simp add: s after_first_comma_append[OF a] count_list_0_iff)
qed

lemma cleanBase64_one_comma:
  assumes "count_list s (CHR '','') \<le> 1"
  shows "cleanBase64 s = spec_cleanBase64 s"
proof -
  have tw: "takeWhile (\<lambda>c. c \<noteq> CHR '','') (after_first_comma s) = after_first_comma s"
    using one_comma_rest[OF assms] by (auto simp: takeWhile_eq_all_conv)
  show ?thesis
  proof (cases "CHR '','' \<in> set s")
    case True
    then show ?thesis
      unfolding cleanBase64_segment spec_cleanBase64_def tw Let_def by simp
  next
    case False
    then show ?thesis
      unfolding cleanBase64_segment spec_cleanBase64_def tw Let_def
      by (simp add: after_first_comma_none)
  qed
qed

text \<open>
  C9, as the code has it. The payload is the piece between the first comma and the next
  one (or the end of the string), not everything after the first comma; when that piece
  is empty, or there is no comma, the string is used unchanged. For a string with at most
  one comma, which is what a base64 data URL is, this is the helper the specification
  describes.
\<close>

theorem cleanBase64_payload:
  "cleanBase64 s =
     (let seg = takeWhile (\<lambda>c. c \<noteq> CHR '','') (after_first_comma s)
      in if seg = [] then s else seg)
   \<and> (count_list s (CHR '','') \<le> 1 \<longrightarrow> cleanBase64 s = spec_cleanBase64 s)"
  using cleanBase64_segment cleanBase64_one_comma by blast

theorem cleanBase64_payload_witness:
  "count_list ''data:image/jpeg;base64,QUJD'' (CHR '','') \<le> 1
   \<and> cleanBase64 ''data:image/jpeg;base64,QUJD'' = ''QUJD''
   \<and> spec_cleanBase64 ''data:image/jpeg;base64,QUJD'' = ''QUJD''"
proof -
  have h: "count_list ''data:image/jpeg;base64,QUJD'' (CHR '','') \<le> 1" by simp
  have "cleanBase64 ''data:image/jpeg;base64,QUJD'' = spec_cleanBase64 ''data:image/jpeg;base64,QUJD''"
    using cleanBase64_payload[of "''data:image/jpeg;base64,QUJD''"] h by blast
  moreover have "spec_cleanBase64 ''data:image/jpeg;base64,QUJD'' = ''QUJD''"
    by (simp add: spec_cleanBase64_def after_first_comma_def)
  ultimately show ?thesis using h by simp
qed

text \<open>
  With a second comma the code and the specification's description part ways: the code
  keeps only the piece up to the second comma.
\<close>

theorem cleanBase64_second_comma:
  "cleanBase64 ''data:,AA,BB'' = ''AA'' \<and> spec_cleanBase64 ''data:,AA,BB'' = ''AA,BB''"
  by (simp add: cleanBase64_def spec_cleanBase64_def after_first_comma_def)

section \<open>The visualization service\<close>

lemma getClient_eq:
  "getClient e = (if truthy_string (API_KEY e) then Inr (the (API_KEY e)) else Inl ApiKeyMissing)"
  by (cases "API_KEY e") (simp_all add: getClient_def)

lemma length_variations: "length (variations category) = 4"
  by (cases category) (simp_all add: variations_def)

lemma variations_four: "\<exists>a b c d. variations category = [a, b, c, d]"
  by (cases category) (simp_all add: variations_def)

lemma slice_from_0:
  "slice xs 0 count =
     take (nat (if count < 0 then max (int (length xs) + count) 0 else count)) xs"
  by (auto simp: slice_def Let_def min_def max_def)

lemma length_selected:
  "length (slice (variations category) 0 count) =
     (if count < 0 then nat (4 + count) else nat (min count 4))"
  by (auto simp: slice_from_0 length_variations min_def max_def)

lemma slice_minus_1: "slice [a, b, c, d] 0 (- 1) = [a, b, c]"
  by (simp add: slice_def)

lemma slice_4: "slice [a, b, c, d] 0 4 = [a, b, c, d]"
  by (simp add: slice_def)

lemma upt_0_4: "[0..<4] = [0, 1, 2, 3]"
  by (simp add: upt_rec)

lemma visualizations_requests:
  "fst (generateDesignVisualizations e img category count) =
     (case getClient e of
        Inl err \<Rightarrow> []
      | Inr ai \<Rightarrow> map (variation_request img) (slice (variations category) 0 count))"
  by (simp add: generateDesignVisualizations_def Let_def split: sum.splits)

lemma map_enumerate_nth:
  "map (\<lambda>(i, v). f i v) (enumerate 0 xs) = map (\<lambda>i. f i (xs ! i)) [0..<length xs]"
  by (rule nth_equalityI) (simp_all add: nth_enumerate_eq)

lemma visualizations_result:
  assumes "getClient e = Inr ai"
  shows "snd (generateDesignVisualizations e img category count) =
     Inr (map (\<lambda>i. the (generate_variation e img i (slice (variations category) 0 count ! i)))
            (filter (\<lambda>i. generate_variation e img i (slice (variations category) 0 count ! i) \<noteq> None)
               [0..<length (slice (variations category) 0 count)]))"
  using assms
  by (simp add: generateDesignVisualizations_def Let_def map_enumerate_nth filter_map o_def)

lemma visualizations_no_key:
  "\<not> truthy_string (API_KEY e) \<Longrightarrow>
     generateDesignVisualizations e img category count = ([], Inl ApiKeyMissing)"
  by (simp add: generateDesignVisualizations_def getClient_eq)

lemma length_filter_compl:
  "length (filter P xs) = length xs - length (filter (\<lambda>x. \<not> P x) xs)"
  using sum_length_filter_compl[of P xs] by simp

lemma visualizations_length_le:
  "snd (generateDesignVisualizations e img category count) = Inr urls
     \<Longrightarrow> length urls \<le> length (fst (generateDesignVisualizations e img category count))"
proof (cases "truthy_string (API_KEY e)")
  case False
  assume "snd (generateDesignVisualizations e img category count) = Inr urls"
  with False show ?thesis by (simp add: visualizations_no_key)
next
  case True
  then have k: "getClient e = Inr (the (API_KEY e))" by (simp add: getClient_eq)
  assume "snd (generateDesignVisualizations e img category count) = Inr urls"
  then have "length urls \<le> length (slice (variations category) 0 count)"
    unfolding visualizations_result[OF k]
    using length_filter_le[of _ "[0..<length (slice (variations category) 0 count)]"]
    by auto
  then show ?thesis by (simp add: visualizations_requests k)
qed

lemma visualizations_requests_length:
  "length (fst (generateDesignVisualizations e img category count)) \<le>
     (if count < 0 then nat (4 + count) else nat (min count 4))"
  by (cases "getClient e") (simp_all add: visualizations_requests length_selected)

lemma first_image_image_response [simp]:
  "first_image (response_parts (image_response d)) = Some (''data:image/png;base64,'' @ d)"
  by (simp add: image_response_def response_parts_def)

lemma visualize_third_fails:
  "snd (generateDesignVisualizations world_third_fails ''QUJD'' COLOR_PALETTE 4) =
     Inr [''data:image/png;base64,A'', ''data:image/png;base64,AA'', ''data:image/png;base64,AAAA'']"
proof -
  obtain a b c d where v: "variations COLOR_PALETTE = [a, b, c, d]"
    using variations_four by blast
  show ?thesis
    by (simp add: generateDesignVisualizations_def getClient_def world_third_fails_def v
      slice_4 generate_variation_def)
qed

text \<open>
  C3. A call that finds its API key never rejects: every variation whose request errors or
  whose response has no image part is left out, and the list returned is the outcomes of
  the remaining variations in the order of the selected prompts (\<open>ok\<close> is increasing), so
  its length is the number selected less the number that failed; with a count of 4 and one
  failure that is 3. The only rejection is the missing key, before any request is made.
\<close>

theorem generateDesignVisualizations_drops_failures:
  "(let selected = slice (variations category) 0 count;
        outcome = (\<lambda>i. generate_variation e img i (selected ! i));
        ok = filter (\<lambda>i. outcome i \<noteq> None) [0..<length selected];
        failed = filter (\<lambda>i. outcome i = None) [0..<length selected]
    in if truthy_string (API_KEY e)
       then \<exists>urls. snd (generateDesignVisualizations e img category count) = Inr urls
              \<and> map Some urls = map outcome ok
              \<and> length urls = length selected - length failed
              \<and> (count = 4 \<and> length failed = 1 \<longrightarrow> length urls = 3)
       else generateDesignVisualizations e img category count = ([], Inl ApiKeyMissing))"
proof (cases "truthy_string (API_KEY e)")
  case False
  then show ?thesis by (simp add: visualizations_no_key Let_def)
next
  case True
  then have g: "getClient e = Inr (the (API_KEY e))" by (simp add: getClient_eq)
  let ?sel = "slice (variations category) 0 count"
  let ?out = "\<lambda>i. generate_variation e img i (?sel ! i)"
  let ?ok = "filter (\<lambda>i. ?out i \<noteq> None) [0..<length ?sel]"
  let ?failed = "filter (\<lambda>i. ?out i = None) [0..<length ?sel]"
  let ?urls = "map (\<lambda>i. the (?out i)) ?ok"
  have r: "snd (generateDesignVisualizations e img category count) = Inr ?urls"
    by (rule visualizations_result[OF g])
  have m: "map Some ?urls = map ?out ?ok" by auto
  have l: "length ?urls = length ?sel - length ?failed"
    using length_filter_compl[of "\<lambda>i. ?out i \<noteq> None" "[0..<length ?sel]"] by simp
  have four: "count = 4 \<Longrightarrow> length ?sel = 4" by (simp add: length_selected)
  have t: "count = 4 \<and> length ?failed = 1 \<longrightarrow> length ?urls = 3"
    using l four by auto
  have "\<exists>urls. snd (generateDesignVisualizations e img category count) = Inr urls
           \<and> map Some urls = map ?out ?ok
           \<and> length urls = length ?sel - length ?failed
           \<and> (count = 4 \<and> length ?failed = 1 \<longrightarrow> length urls = 3)"
    using r m l t by blast
  with True show ?thesis unfolding Let_def by simp
qed

theorem generateDesignVisualizations_drops_failures_witness:
  "truthy_string (API_KEY world_third_fails)
   \<and> filter (\<lambda>i. generate_variation world_third_fails ''QUJD'' i
                   (slice (variations COLOR_PALETTE) 0 4 ! i) = None) [0..<4] = [2]
   \<and> (\<exists>urls. snd (generateDesignVisualizations world_third_fails ''QUJD'' COLOR_PALETTE 4) = Inr urls
         \<and> length urls = 3)
   \<and> snd (generateDesignVisualizations world_third_fails ''QUJD'' COLOR_PALETTE 4) =
       Inr [''data:image/png;base64,A'', ''data:image/png;base64,AA'',
            ''data:image/png;base64,AAAA'']"
proof -
  have k: "truthy_string (API_KEY world_third_fails)" by (simp add: world_third_fails_def)
  have n: "length (slice (variations COLOR_PALETTE) 0 4) = 4" by (simp add: length_selected)
  have f: "filter (\<lambda>i. generate_variation world_third_fails ''QUJD'' i
                   (slice (variations COLOR_PALETTE) 0 4 ! i) = None) [0..<4] = [2]"
    by (simp add: upt_0_4 generate_variation_def world_third_fails_def)
  have "\<exists>urls. snd (generateDesignVisualizations world_third_fails ''QUJD'' COLOR_PALETTE 4) = Inr urls
         \<and> length urls = 3"
    using generateDesignVisualizations_drops_failures[of COLOR_PALETTE 4 world_third_fails "''QUJD''"]
      k n f
    by (auto simp: Let_def)
  with k f visualize_third_fails show ?thesis by blast
qed

text \<open>
  C10, for a count that is not negative. The requests are those of the first \<open>count\<close>
  entries of the category's table of four, so there are at most \<open>min count 4\<close> of them
  and never more than four; the list returned is no longer than the list of requests; a
  count of 0 sends nothing and returns nothing.
\<close>

theorem generateDesignVisualizations_at_most_four:
  "length (fst (generateDesignVisualizations e img category count)) \<le> 4
   \<and> (\<forall>urls. snd (generateDesignVisualizations e img category count) = Inr urls
        \<longrightarrow> length urls \<le> length (fst (generateDesignVisualizations e img category count)))
   \<and> (0 \<le> count \<longrightarrow>
        length (fst (generateDesignVisualizations e img category count)) \<le> nat (min count 4))
   \<and> (0 \<le> count \<and> truthy_string (API_KEY e) \<longrightarrow>
        fst (generateDesignVisualizations e img category count) =
          map (variation_request img) (take (nat count) (variations category)))
   \<and> (count = 0 \<longrightarrow>
        fst (generateDesignVisualizations e img category count) = []
        \<and> (\<forall>urls. snd (generateDesignVisualizations e img category count) = Inr urls
              \<longrightarrow> urls = []))"
proof -
  let ?reqs = "fst (generateDesignVisualizations e img category count)"
  have len: "length ?reqs \<le> (if count < 0 then nat (4 + count) else nat (min count 4))"
    by (rule visualizations_requests_length)
  have c1: "length ?reqs \<le> 4" using len by (simp split: if_splits)
  have c3: "0 \<le> count \<longrightarrow> length ?reqs \<le> nat (min count 4)"
    using len by (auto split: if_splits)
  have c4: "0 \<le> count \<and> truthy_string (API_KEY e) \<longrightarrow>
        ?reqs = map (variation_request img) (take (nat count) (variations category))"
    by (simp add: visualizations_requests getClient_eq slice_from_0)
  have z: "count = 0 \<Longrightarrow> ?reqs = []" using len by (auto split: if_splits)
  have c5: "count = 0 \<longrightarrow> ?reqs = [] \<and>
      (\<forall>urls. snd (generateDesignVisualizations e img category count) = Inr urls \<longrightarrow> urls = [])"
  proof (intro impI conjI allI)
    assume "count = 0" then show "?reqs = []" by (rule z)
  next
    fix urls
    assume c: "count = 0"
      and r: "snd (generateDesignVisualizations e img category count) = Inr urls"
    from visualizations_length_le[OF r] z[OF c] show "urls = []" by simp
  qed
  from c1 visualizations_length_le c3 c4 c5 show ?thesis by blast
qed

theorem generateDesignVisualizations_at_most_four_witness:
  "(0::int) \<le> 6 \<and> truthy_string (API_KEY world_images)
   \<and> length (fst (generateDesignVisualizations world_images ''QUJD'' LAYOUT 6)) = 4
   \<and> fst (generateDesignVisualizations world_images ''QUJD'' LAYOUT 0) = []
   \<and> snd (generateDesignVisualizations world_images ''QUJD'' LAYOUT 0) = Inr []"
proof -
  have k: "truthy_string (API_KEY world_images)" by (simp add: world_images_def)
  have "fst (generateDesignVisualizations world_images ''QUJD'' LAYOUT 6) =
          map (variation_request ''QUJD'') (take (nat 6) (variations LAYOUT))"
    using generateDesignVisualizations_at_most_four[of world_images "''QUJD''" LAYOUT 6] k
    by simp
  then have a: "length (fst (generateDesignVisualizations world_images ''QUJD'' LAYOUT 6)) = 4"
    by (simp add: length_variations)
  have b: "fst (generateDesignVisualizations world_images ''QUJD'' LAYOUT 0) = []"
    using generateDesignVisualizations_at_most_four[of world_images "''QUJD''" LAYOUT 0]
    by simp
  have "\<exists>urls. snd (generateDesignVisualizations world_images ''QUJD'' LAYOUT 0) = Inr urls"
    using k by (simp add: generateDesignVisualizations_def getClient_eq Let_def)
  then have c: "snd (generateDesignVisualizations world_images ''QUJD'' LAYOUT 0) = Inr []"
    using generateDesignVisualizations_at_most_four[of world_images "''QUJD''" LAYOUT 0]
    by auto
  from k a b c show ?thesis by simp
qed

text \<open>
  A negative count is not an empty selection: \<open>slice(0, -1)\<close> drops the last entry of the
  table, so three requests are sent and three images come back.
\<close>

theorem generateDesignVisualizations_negative_count:
  "length (fst (generateDesignVisualizations world_images ''data:image/jpeg;base64,QUJD''
                  LIGHTING (- 1))) = 3
   \<and> snd (generateDesignVisualizations world_images ''data:image/jpeg;base64,QUJD''
             LIGHTING (- 1))
       = Inr [''data:image/png;base64,A'', ''data:image/png;base64,AA'',
              ''data:image/png;base64,AAA'']"
proof -
  obtain a b c d where v: "variations LIGHTING = [a, b, c, d]"
    using variations_four by blast
  show ?thesis
    by (simp add: generateDesignVisualizations_def getClient_def world_images_def v
      slice_minus_1 generate_variation_def)
qed

section \<open>The analysis service\<close>

lemma analyze_requests:
  "fst (analyzeRoomDesign P e img category) =
     (if truthy_string (API_KEY e) then [analysis_request img category] else [])"
  by (simp add: analyzeRoomDesign_def getClient_eq)

lemma analyze_result:
  assumes "truthy_string (API_KEY e)"
    and "generateContent e 0 (analysis_request img category) = Inr resp"
  shows "snd (analyzeRoomDesign P e img category) =
     (case P (text_or_empty_object resp) of
        None \<Rightarrow> Inl SyntaxError
      | Some json \<Rightarrow>
          (case get_advice json of
             Inl err \<Rightarrow> Inl err
           | Inr None \<Rightarrow> Inr (JArray [])
           | Inr (Some a) \<Rightarrow> Inr (if truthy a then a else JArray [])))"
  using assms by (simp add: analyzeRoomDesign_def getClient_eq)

lemma text_or_empty_object_text_response:
  "t \<noteq> [] \<Longrightarrow> text_or_empty_object (text_response t) = t"
  by (simp add: text_or_empty_object_def text_response_def)

lemma text_or_empty_object_image_response:
  \<open>text_or_empty_object (image_response d) = ''{}''\<close>
  by (simp add: text_or_empty_object_def image_response_def)

lemma world_text_simps [simp]:
  "truthy_string (API_KEY (world_text t))"
  "generateContent (world_text t) i r = Inr (text_response t)"
  by (simp_all add: world_text_def)

lemma world_images_simps [simp]:
  "truthy_string (API_KEY world_images)"
  "generateContent world_images i r = Inr (image_response (replicate (Suc i) (CHR ''A'')))"
  by (simp_all add: world_images_def)

lemma four_items_text_nonempty: "four_items_text \<noteq> []"
  by (simp add: four_items_text_def)

lemma untitled_items_text_nonempty: "untitled_items_text \<noteq> []"
  by (simp add: untitled_items_text_def)

lemma parse_empty_object: \<open>JSON_parse_fragment ''{}'' = Some (JObject [])\<close>
  by (simp add: JSON_parse_fragment_def)

lemma parse_tips: \<open>JSON_parse_fragment ''{"tips":[]}'' = Some (JObject [(''tips'', JArray [])])\<close>
  by (simp add: JSON_parse_fragment_def)

lemma parse_four:
  "JSON_parse_fragment four_items_text = Some (JObject [(''advice'', JArray four_items)])"
  by (simp add: JSON_parse_fragment_def four_items_text_def)

lemma parse_untitled:
  "JSON_parse_fragment untitled_items_text = Some (JObject [(''advice'', JArray untitled_items)])"
  by (simp add: JSON_parse_fragment_def four_items_text_def untitled_items_text_def)

lemma parse_truncated: \<open>JSON_parse_fragment ''{"advice": ['' = None\<close>
  by (simp add: JSON_parse_fragment_def four_items_text_def untitled_items_text_def)

text \<open>
  C1, as the code has it. When the remote call succeeds and the text parses to an object
  with no \<open>advice\<close> property, the result is the empty list; that covers a response
  with no text or an empty one, for which \<open>{}\<close> is parsed instead. When the text is not
  JSON, the SyntaxError of the parser is caught, logged and thrown again: the call
  rejects.
\<close>

theorem analyzeRoomDesign_missing_advice:
  "truthy_string (API_KEY e) \<and> generateContent e 0 (analysis_request img category) = Inr resp
   \<longrightarrow>
     (\<forall>kvs. JSON_parse (text_or_empty_object resp) = Some (JObject kvs)
             \<and> map_of kvs ''advice'' = None
        \<longrightarrow> snd (analyzeRoomDesign JSON_parse e img category) = Inr (JArray []))
     \<and> ((response_text resp = None \<or> response_text resp = Some [])
          \<and> JSON_parse ''{}'' = Some (JObject [])
        \<longrightarrow> snd (analyzeRoomDesign JSON_parse e img category) = Inr (JArray []))
     \<and> (JSON_parse (text_or_empty_object resp) = None
        \<longrightarrow> snd (analyzeRoomDesign JSON_parse e img category) = Inl SyntaxError)"
  by (auto simp: analyze_result text_or_empty_object_def)

theorem analyzeRoomDesign_missing_advice_witness:
  \<open>truthy_string (API_KEY (world_text ''{"tips":[]}''))
   \<and> generateContent (world_text ''{"tips":[]}'') 0 (analysis_request ''QUJD'' DECOR)
        = Inr (text_response ''{"tips":[]}'')
   \<and> JSON_parse_fragment (text_or_empty_object (text_response ''{"tips":[]}''))
        = Some (JObject [(''tips'', JArray [])])
   \<and> map_of [(''tips'', JArray [])] ''advice'' = None
   \<and> snd (analyzeRoomDesign JSON_parse_fragment (world_text ''{"tips":[]}'') ''QUJD'' DECOR)
        = Inr (JArray [])
   \<and> response_text (image_response ''A'') = None
   \<and> snd (analyzeRoomDesign JSON_parse_fragment world_images ''QUJD'' DECOR) = Inr (JArray [])
   \<and> JSON_parse_fragment (text_or_empty_object (text_response ''{"advice": ['')) = None
   \<and> snd (analyzeRoomDesign JSON_parse_fragment (world_text ''{"advice": ['') ''QUJD'' DECOR)
        = Inl SyntaxError\<close>
proof -
  have p1: \<open>JSON_parse_fragment (text_or_empty_object (text_response ''{"tips":[]}''))
        = Some (JObject [(''tips'', JArray [])])\<close>
    by (simp add: text_or_empty_object_text_response parse_tips)
  have p2: \<open>JSON_parse_fragment (text_or_empty_object (text_response ''{"advice": ['')) = None\<close>
    by (simp add: text_or_empty_object_text_response parse_truncated)
  have p3: "response_text (image_response ''A'') = None"
    by (simp add: image_response_def)
  have m: "map_of [(''tips'', JArray [])] ''advice'' = None" by simp
  have a: \<open>snd (analyzeRoomDesign JSON_parse_fragment (world_text ''{"tips":[]}'') ''QUJD'' DECOR)
        = Inr (JArray [])\<close>
    using analyzeRoomDesign_missing_advice[of \<open>world_text ''{"tips":[]}''\<close> "''QUJD''" DECOR
            \<open>text_response ''{"tips":[]}''\<close> JSON_parse_fragment] p1 m
    by simp
  have b: \<open>snd (analyzeRoomDesign JSON_parse_fragment (world_text ''{"advice": ['') ''QUJD'' DECOR)
        = Inl SyntaxError\<close>
    using analyzeRoomDesign_missing_advice[of \<open>world_text ''{"advice": [''\<close> "''QUJD''" DECOR
            \<open>text_response ''{"advice": [''\<close> JSON_parse_fragment] p2
    by simp
  have c: "snd (analyzeRoomDesign JSON_parse_fragment world_images ''QUJD'' DECOR) = Inr (JArray [])"
    using analyzeRoomDesign_missing_advice[of world_images "''QUJD''" DECOR
            "image_response ''A''" JSON_parse_fragment] p3 parse_empty_object
    by simp
  from p1 p2 p3 m a b c show ?thesis by simp
qed

text \<open>
  A response cut off in the middle of the array: the call rejects with the parser's
  error instead of resolving to the empty list.
\<close>

theorem analyzeRoomDesign_malformed_json_throws:
  \<open>snd (analyzeRoomDesign JSON_parse_fragment (world_text ''{"advice": ['')
          ''data:image/jpeg;base64,QUJD'' LIGHTING) = Inl SyntaxError\<close>
  by (simp add: analyze_result[where resp = \<open>text_response ''{"advice": [''\<close>]
        text_or_empty_object_text_response parse_truncated)

text \<open>
  C8, as the code has it. When the text parses to an object whose \<open>advice\<close> is an array of
  four items, the result is that array as it was parsed, so it has four items; the items
  are not inspected, so they have a non-empty title, description and principleSource
  when, and only when, the items of the response have.
\<close>

theorem analyzeRoomDesign_returns_advice_array:
  "truthy_string (API_KEY e) \<and> generateContent e 0 (analysis_request img category) = Inr resp
   \<and> JSON_parse (text_or_empty_object resp) = Some (JObject kvs)
   \<and> map_of kvs ''advice'' = Some (JArray items) \<and> length items = 4
   \<longrightarrow> snd (analyzeRoomDesign JSON_parse e img category) = Inr (JArray items)
       \<and> (\<exists>out. snd (analyzeRoomDesign JSON_parse e img category) = Inr (JArray out)
              \<and> length out = 4
              \<and> (list_all advice_item_ok out \<longleftrightarrow> list_all advice_item_ok items))"
  by (auto simp: analyze_result)

theorem analyzeRoomDesign_returns_advice_array_witness:
  "truthy_string (API_KEY (world_text four_items_text))
   \<and> generateContent (world_text four_items_text) 0 (analysis_request ''QUJD'' DECOR)
        = Inr (text_response four_items_text)
   \<and> JSON_parse_fragment (text_or_empty_object (text_response four_items_text))
        = Some (JObject [(''advice'', JArray four_items)])
   \<and> length four_items = 4
   \<and> snd (analyzeRoomDesign JSON_parse_fragment (world_text four_items_text) ''QUJD'' DECOR)
        = Inr (JArray four_items)
   \<and> list_all advice_item_ok four_items"
proof -
  have p: "JSON_parse_fragment (text_or_empty_object (text_response four_items_text))
        = Some (JObject [(''advice'', JArray four_items)])"
    by (simp add: text_or_empty_object_text_response four_items_text_nonempty parse_four)
  have l: "length four_items = 4" by (simp add: four_items_def)
  have "snd (analyzeRoomDesign JSON_parse_fragment (world_text four_items_text) ''QUJD'' DECOR)
        = Inr (JArray four_items)"
    using analyzeRoomDesign_returns_advice_array[of "world_text four_items_text" "''QUJD''"
            DECOR "text_response four_items_text" JSON_parse_fragment
            "[(''advice'', JArray four_items)]" four_items] p l
    by simp
  moreover have "list_all advice_item_ok four_items"
    by (simp add: four_items_def advice_item_def advice_item_ok_def)
  ultimately show ?thesis using p l by simp
qed

text \<open>
  A response of four items, the first with an empty title: it is returned as it is.
\<close>

theorem analyzeRoomDesign_empty_title_returned:
  "snd (analyzeRoomDesign JSON_parse_fragment (world_text untitled_items_text)
          ''data:image/jpeg;base64,QUJD'' LIGHTING)
     = Inr (JArray [advice_item [], advice_item ''2'', advice_item ''3'', advice_item ''4''])
   \<and> \<not> advice_item_ok (advice_item [])"
  by (simp add: analyze_result[where resp = "text_response untitled_items_text"]
        text_or_empty_object_text_response untitled_items_text_nonempty parse_untitled
        untitled_items_def advice_item_def advice_item_ok_def)

section \<open>The workflow controller\<close>

lemma service_calls_simps [simp]:
  "service_calls [] = []"
  "service_calls (SetLoadingState l # evs) = service_calls evs"
  "service_calls (Remote r # evs) = service_calls evs"
  "service_calls (AnalyzeRoomDesign i c # evs) = AnalyzeRoomDesign i c # service_calls evs"
  "service_calls (GenerateDesignVisualizations i c n # evs) =
     GenerateDesignVisualizations i c n # service_calls evs"
  "service_calls (CleanRoomImage i # evs) = CleanRoomImage i # service_calls evs"
  "service_calls (xs @ ys) = service_calls xs @ service_calls ys"
  "service_calls (map Remote rs) = []"
  by (simp_all add: service_calls_def)

lemma loading_of_simps [simp]:
  "List.map_filter loading_of [] = []"
  "List.map_filter loading_of (SetLoadingState l # evs) = l # List.map_filter loading_of evs"
  "List.map_filter loading_of (Remote r # evs) = List.map_filter loading_of evs"
  "List.map_filter loading_of (AnalyzeRoomDesign i c # evs) = List.map_filter loading_of evs"
  "List.map_filter loading_of (GenerateDesignVisualizations i c n # evs) =
     List.map_filter loading_of evs"
  "List.map_filter loading_of (CleanRoomImage i # evs) = List.map_filter loading_of evs"
  "List.map_filter loading_of (xs @ ys) =
     List.map_filter loading_of xs @ List.map_filter loading_of ys"
  "List.map_filter loading_of (map Remote rs) = []"
  by (simp_all add: List.map_filter_def o_def)

lemma remote_requests_simps [simp]:
  "remote_requests [] = []"
  "remote_requests (SetLoadingState l # evs) = remote_requests evs"
  "remote_requests (Remote r # evs) = r # remote_requests evs"
  "remote_requests (AnalyzeRoomDesign i c # evs) = remote_requests evs"
  "remote_requests (GenerateDesignVisualizations i c n # evs) = remote_requests evs"
  "remote_requests (CleanRoomImage i # evs) = remote_requests evs"
  "remote_requests (xs @ ys) = remote_requests xs @ remote_requests ys"
  "remote_requests (map Remote rs) = rs"
  by (simp_all add: remote_requests_def List.map_filter_def o_def)

lemma request_image_simps [simp]:
  "request_image (analysis_request img c) = Some (cleanBase64 img)"
  "request_image (variation_request img v) = Some (cleanBase64 img)"
  "request_image (clean_request img) = Some (cleanBase64 img)"
  by (simp_all add: request_image_def analysis_request_def variation_request_def
        clean_request_def image_part_def)

lemma analyze_requests_image:
  "r \<in> set (fst (analyzeRoomDesign P e img c)) \<Longrightarrow> request_image r = Some (cleanBase64 img)"
  by (auto simp: analyze_requests split: if_splits)

lemma visualizations_requests_image:
  "r \<in> set (fst (generateDesignVisualizations e img c n)) \<Longrightarrow>
     request_image r = Some (cleanBase64 img)"
  by (cases "getClient e") (auto simp: visualizations_requests)

lemma first_image_nonempty: "first_image ps = Some url \<Longrightarrow> url \<noteq> []"
  by (induction ps) (auto split: option.splits)

lemma cleanRoomImage_nonempty: "cleanRoomImage e img = (reqs, Inr cleaned) \<Longrightarrow> cleaned \<noteq> []"
  by (auto simp: cleanRoomImage_def split: sum.splits option.splits dest: first_image_nonempty)

subsection \<open>handleAnalysis past its guard, by the outcome of the two calls\<close>

lemma handleAnalysis_no_image:
  "\<not> truthy_string (originalImage s) \<Longrightarrow> handleAnalysis P e1 e2 s = (s, [])"
  by (cases "originalImage s") (simp_all add: handleAnalysis_def)

lemma handleAnalysis_analysis_fails:
  assumes "truthy_string (originalImage s)" and "activeImage s = Some img"
    and "analyzeRoomDesign P e1 img (selectedCategory s) = (reqs, Inl err)"
  shows "handleAnalysis P e1 e2 s =
     (s\<lparr>loadingState := Idle, advice := JArray [], visualizations := [],
        error := Some analysis_failed\<rparr>,
      [SetLoadingState Analyzing, AnalyzeRoomDesign img (selectedCategory s)]
        @ map Remote reqs @ [SetLoadingState Idle])"
  using assms
  by (cases "originalImage s"; cases "cleanImage s")
     (auto simp: handleAnalysis_def activeImage_def Let_def split: if_splits)

lemma handleAnalysis_visualization_fails:
  assumes "truthy_string (originalImage s)" and "activeImage s = Some img"
    and "analyzeRoomDesign P e1 img (selectedCategory s) = (reqs, Inr a)"
    and "generateDesignVisualizations e2 img (selectedCategory s) 4 = (reqs', Inl err)"
  shows "handleAnalysis P e1 e2 s =
     (s\<lparr>loadingState := Idle, advice := a, visualizations := [],
        error := Some analysis_failed\<rparr>,
      [SetLoadingState Analyzing, AnalyzeRoomDesign img (selectedCategory s)]
        @ map Remote reqs
        @ [SetLoadingState Visualizing, GenerateDesignVisualizations img (selectedCategory s) 4]
        @ map Remote reqs' @ [SetLoadingState Idle])"
  using assms
  by (cases "originalImage s"; cases "cleanImage s")
     (auto simp: handleAnalysis_def activeImage_def Let_def split: if_splits)

lemma handleAnalysis_succeeds:
  assumes "truthy_string (originalImage s)" and "activeImage s = Some img"
    and "analyzeRoomDesign P e1 img (selectedCategory s) = (reqs, Inr a)"
    and "generateDesignVisualizations e2 img (selectedCategory s) 4 = (reqs', Inr urls)"
  shows "handleAnalysis P e1 e2 s =
     (s\<lparr>loadingState := Idle, advice := a, visualizations := urls, error := None\<rparr>,
      [SetLoadingState Analyzing, AnalyzeRoomDesign img (selectedCategory s)]
        @ map Remote reqs
        @ [SetLoadingState Visualizing, GenerateDesignVisualizations img (selectedCategory s) 4]
        @ map Remote reqs' @ [SetLoadingState Idle])"
  using assms
  by (cases "originalImage s"; cases "cleanImage s")
     (auto simp: handleAnalysis_def activeImage_def Let_def split: if_splits)

lemma handleAnalysis_trace:
  assumes "truthy_string (originalImage s)" and "activeImage s = Some img"
  shows "List.map_filter loading_of (snd (handleAnalysis P e1 e2 s)) =
      (case snd (analyzeRoomDesign P e1 img (selectedCategory s)) of
         Inl err \<Rightarrow> [Analyzing, Idle]
       | Inr a \<Rightarrow> [Analyzing, Visualizing, Idle])
    \<and> service_calls (snd (handleAnalysis P e1 e2 s)) =
      (case snd (analyzeRoomDesign P e1 img (selectedCategory s)) of
         Inl err \<Rightarrow> [AnalyzeRoomDesign img (selectedCategory s)]
       | Inr a \<Rightarrow> [AnalyzeRoomDesign img (selectedCategory s),
                    GenerateDesignVisualizations img (selectedCategory s) 4])
    \<and> remote_requests (snd (handleAnalysis P e1 e2 s)) =
      fst (analyzeRoomDesign P e1 img (selectedCategory s)) @
      (case snd (analyzeRoomDesign P e1 img (selectedCategory s)) of
         Inl err \<Rightarrow> []
       | Inr a \<Rightarrow> fst (generateDesignVisualizations e2 img (selectedCategory s) 4))
    \<and> loadingState (fst (handleAnalysis P e1 e2 s)) = Idle"
proof -
  obtain reqs r where a: "analyzeRoomDesign P e1 img (selectedCategory s) = (reqs, r)"
    by (cases "analyzeRoomDesign P e1 img (selectedCategory s)")
  obtain reqs' r' where
    v: "generateDesignVisualizations e2 img (selectedCategory s) 4 = (reqs', r')"
    by (cases "generateDesignVisualizations e2 img (selectedCategory s) 4")
  consider (af) err where "r = Inl err"
    | (vf) adv err where "r = Inr adv" "r' = Inl err"
    | (ok) adv urls where "r = Inr adv" "r' = Inr urls"
    by (cases r; cases r') auto
  then show ?thesis
  proof cases
    case af
    with a show ?thesis
      by (simp add: handleAnalysis_analysis_fails[OF assms])
  next
    case vf
    with a v show ?thesis
      by (simp add: handleAnalysis_visualization_fails[OF assms])
  next
    case ok
    with a v show ?thesis
      by (simp add: handleAnalysis_succeeds[OF assms])
  qed
qed

subsection \<open>The states of a session\<close>

lemma session_inv_processFile: "session_inv s \<Longrightarrow> session_inv (fst (processFile img s))"
  by (simp add: session_inv_def processFile_def)

lemma session_inv_handleCleanCheck:
  "session_inv s \<Longrightarrow> session_inv (fst (handleCleanCheck e checked s))"
  by (cases "originalImage s"; cases "cleanImage s")
     (auto simp: session_inv_def handleCleanCheck_def
           split: if_splits prod.splits sum.splits dest: cleanRoomImage_nonempty)

lemma session_inv_handleAnalysis:
  "session_inv s \<Longrightarrow> session_inv (fst (handleAnalysis P e1 e2 s))"
  by (cases "originalImage s")
     (auto simp: session_inv_def handleAnalysis_def Let_def
           split: if_splits prod.splits sum.splits)

lemma reachable_inv: "reachable s \<Longrightarrow> session_inv s"
proof (induction rule: reachable.induct)
  case start
  show ?case by (simp add: session_inv_def initial_state_def)
next
  case (upload s result)
  then show ?case by (simp add: session_inv_processFile)
next
  case (clean_check s e checked)
  then show ?case by (simp add: session_inv_handleCleanCheck)
next
  case (select s c)
  then show ?case by (simp add: session_inv_def)
next
  case (generate s JSON_parse e1 e2)
  then show ?case by (simp add: session_inv_handleAnalysis)
qed

lemma reachable_active:
  "reachable s \<Longrightarrow> activeImage s =
     (if isCleanMode s \<and> cleanImage s \<noteq> None then cleanImage s else originalImage s)"
  by (drule reachable_inv, cases "cleanImage s") (auto simp: session_inv_def activeImage_def)

subsection \<open>The sample states and calls\<close>

lemma uploaded_fields:
  "originalImage uploaded = Some ''data:image/jpeg;base64,QUJD''"
  "cleanImage uploaded = None" "isCleanMode uploaded = False"
  "selectedCategory uploaded = LIGHTING" "loadingState uploaded = Idle"
  by (simp_all add: uploaded_def processFile_def initial_state_def)

lemma uploaded_active: "activeImage uploaded = Some ''data:image/jpeg;base64,QUJD''"
  by (simp add: activeImage_def uploaded_fields)

lemma reachable_uploaded: "reachable uploaded"
  unfolding uploaded_def by (intro reachable.intros)

lemma reachable_tidied: "reachable tidied"
  unfolding tidied_def by (intro reachable.intros reachable_uploaded)

lemma tidied_eq:
  "tidied = uploaded\<lparr>cleanImage := Some ''data:image/png;base64,A'', isCleanMode := True\<rparr>"
  by (simp add: tidied_def handleCleanCheck_def uploaded_fields cleanRoomImage_def getClient_def
        world_images_def uploaded_def processFile_def initial_state_def)

lemma analyze_down:
  "analyzeRoomDesign P world_down img c = ([analysis_request img c], Inl (RemoteError ''503''))"
  by (simp add: analyzeRoomDesign_def getClient_def world_down_def)

lemma analyze_four:
  "analyzeRoomDesign JSON_parse_fragment (world_text four_items_text) img c =
     ([analysis_request img c], Inr (JArray four_items))"
  by (simp add: analyzeRoomDesign_def getClient_def world_text_def
        text_or_empty_object_text_response four_items_text_nonempty parse_four)

subsection \<open>Generate\<close>

text \<open>
  C2. A Generate run on an uploaded image whose analysis call rejects ends Idle with the
  one generic message, no advice and no visualizations; a run whose analysis resolves to
  \<open>a\<close> and whose visualization call rejects ends Idle with the same message, the advice
  \<open>a\<close> stored and no visualizations.
\<close>

theorem handleAnalysis_failure_state:
  "truthy_string (originalImage s) \<and> activeImage s = Some img \<longrightarrow>
     (\<forall>reqs err. analyzeRoomDesign P e1 img (selectedCategory s) = (reqs, Inl err) \<longrightarrow>
        fst (handleAnalysis P e1 e2 s) =
          s\<lparr>loadingState := Idle, advice := JArray [], visualizations := [],
            error := Some analysis_failed\<rparr>)
     \<and> (\<forall>reqs a reqs' err.
          analyzeRoomDesign P e1 img (selectedCategory s) = (reqs, Inr a)
          \<and> generateDesignVisualizations e2 img (selectedCategory s) 4 = (reqs', Inl err) \<longrightarrow>
        fst (handleAnalysis P e1 e2 s) =
          s\<lparr>loadingState := Idle, advice := a, visualizations := [],
            error := Some analysis_failed\<rparr>)"
  by (auto simp: handleAnalysis_analysis_fails handleAnalysis_visualization_fails)

theorem handleAnalysis_failure_state_witness:
  "truthy_string (originalImage uploaded)
   \<and> activeImage uploaded = Some ''data:image/jpeg;base64,QUJD''
   \<and> analyzeRoomDesign JSON_parse_fragment world_down ''data:image/jpeg;base64,QUJD''
        (selectedCategory uploaded)
        = ([analysis_request ''data:image/jpeg;base64,QUJD'' LIGHTING], Inl (RemoteError ''503''))
   \<and> fst (handleAnalysis JSON_parse_fragment world_down world_images uploaded)
        = uploaded\<lparr>error := Some analysis_failed\<rparr>
   \<and> analyzeRoomDesign JSON_parse_fragment (world_text four_items_text)
        ''data:image/jpeg;base64,QUJD'' (selectedCategory uploaded)
        = ([analysis_request ''data:image/jpeg;base64,QUJD'' LIGHTING], Inr (JArray four_items))
   \<and> generateDesignVisualizations world_no_key ''data:image/jpeg;base64,QUJD''
        (selectedCategory uploaded) 4 = ([], Inl ApiKeyMissing)
   \<and> fst (handleAnalysis JSON_parse_fragment (world_text four_items_text) world_no_key uploaded)
        = uploaded\<lparr>advice := JArray four_items, error := Some analysis_failed\<rparr>"
proof -
  have t: "truthy_string (originalImage uploaded)" by (simp add: uploaded_fields)
  note a = uploaded_active
  have d: "analyzeRoomDesign JSON_parse_fragment world_down ''data:image/jpeg;base64,QUJD''
        (selectedCategory uploaded)
        = ([analysis_request ''data:image/jpeg;base64,QUJD'' LIGHTING], Inl (RemoteError ''503''))"
    by (simp add: analyze_down uploaded_fields)
  have f: "analyzeRoomDesign JSON_parse_fragment (world_text four_items_text)
        ''data:image/jpeg;base64,QUJD'' (selectedCategory uploaded)
        = ([analysis_request ''data:image/jpeg;base64,QUJD'' LIGHTING], Inr (JArray four_items))"
    by (simp add: analyze_four uploaded_fields)
  have n: "generateDesignVisualizations world_no_key ''data:image/jpeg;base64,QUJD''
        (selectedCategory uploaded) 4 = ([], Inl ApiKeyMissing)"
    by (simp add: visualizations_no_key world_no_key_def)
  have r1: "fst (handleAnalysis JSON_parse_fragment world_down world_images uploaded)
        = uploaded\<lparr>loadingState := Idle, advice := JArray [], visualizations := [],
            error := Some analysis_failed\<rparr>"
    using handleAnalysis_failure_state[of uploaded "''data:image/jpeg;base64,QUJD''"
            JSON_parse_fragment world_down world_images]
      t a d by blast
  have r2: "fst (handleAnalysis JSON_parse_fragment (world_text four_items_text) world_no_key
                  uploaded)
        = uploaded\<lparr>loadingState := Idle, advice := JArray four_items, visualizations := [],
            error := Some analysis_failed\<rparr>"
    using handleAnalysis_failure_state[of uploaded "''data:image/jpeg;base64,QUJD''"
            JSON_parse_fragment "world_text four_items_text" world_no_key]
      t a f n by blast
  have e1: "uploaded\<lparr>loadingState := Idle, advice := JArray [], visualizations := [],
            error := Some analysis_failed\<rparr> = uploaded\<lparr>error := Some analysis_failed\<rparr>"
    by (simp add: uploaded_def processFile_def initial_state_def)
  have e2: "uploaded\<lparr>loadingState := Idle, advice := JArray four_items, visualizations := [],
            error := Some analysis_failed\<rparr>
      = uploaded\<lparr>advice := JArray four_items, error := Some analysis_failed\<rparr>"
    by (simp add: uploaded_def processFile_def initial_state_def)
  from t a d f n r1 r2 e1 e2 show ?thesis by simp
qed

text \<open>
  A Generate run on its own, with no other handler running in between: started Idle on an
  uploaded image it goes through the loading states Idle, Analyzing, Visualizing, Idle
  when the analysis resolves (whether or not the visualization call then rejects), and
  through Idle, Analyzing, Idle when the analysis rejects; it always ends Idle. Without an
  image the run changes nothing.
\<close>

theorem handleAnalysis_loading_trace:
  "(truthy_string (originalImage s) \<and> loadingState s = Idle \<and> activeImage s = Some img \<longrightarrow>
      loading_trace s (snd (handleAnalysis P e1 e2 s)) =
        (case snd (analyzeRoomDesign P e1 img (selectedCategory s)) of
           Inl err \<Rightarrow> [Idle, Analyzing, Idle]
         | Inr a \<Rightarrow> [Idle, Analyzing, Visualizing, Idle])
      \<and> loadingState (fst (handleAnalysis P e1 e2 s)) = Idle)
   \<and> (\<not> truthy_string (originalImage s) \<longrightarrow>
        loading_trace s (snd (handleAnalysis P e1 e2 s)) = [loadingState s])"
  by (auto simp: loading_trace_def handleAnalysis_trace handleAnalysis_no_image
           split: sum.splits)

theorem handleAnalysis_loading_trace_witness:
  "truthy_string (originalImage uploaded) \<and> loadingState uploaded = Idle
   \<and> activeImage uploaded = Some ''data:image/jpeg;base64,QUJD''
   \<and> loading_trace uploaded
        (snd (handleAnalysis JSON_parse_fragment (world_text four_items_text) world_images uploaded))
        = [Idle, Analyzing, Visualizing, Idle]
   \<and> loading_trace uploaded
        (snd (handleAnalysis JSON_parse_fragment world_down world_images uploaded))
        = [Idle, Analyzing, Idle]
   \<and> \<not> truthy_string (originalImage initial_state)
   \<and> loading_trace initial_state
        (snd (handleAnalysis JSON_parse_fragment world_down world_images initial_state))
        = [Idle]"
proof -
  have t: "truthy_string (originalImage uploaded)" by (simp add: uploaded_fields)
  have l: "loadingState uploaded = Idle" by (simp add: uploaded_fields)
  note a = uploaded_active
  have r1: "loading_trace uploaded
        (snd (handleAnalysis JSON_parse_fragment (world_text four_items_text) world_images uploaded))
        = [Idle, Analyzing, Visualizing, Idle]"
    using handleAnalysis_loading_trace[of uploaded "''data:image/jpeg;base64,QUJD''"
            JSON_parse_fragment "world_text four_items_text" world_images] t l a
    by (simp add: analyze_four)
  have r2: "loading_trace uploaded
        (snd (handleAnalysis JSON_parse_fragment world_down world_images uploaded))
        = [Idle, Analyzing, Idle]"
    using handleAnalysis_loading_trace[of uploaded "''data:image/jpeg;base64,QUJD''"
            JSON_parse_fragment world_down world_images] t l a
    by (simp add: analyze_down)
  have i: "\<not> truthy_string (originalImage initial_state)" "loadingState initial_state = Idle"
    by (simp_all add: initial_state_def)
  have r3: "loading_trace initial_state
        (snd (handleAnalysis JSON_parse_fragment world_down world_images initial_state))
        = [Idle]"
    using handleAnalysis_loading_trace[of initial_state "[]" JSON_parse_fragment
            world_down world_images] i
    by simp
  from t l a r1 r2 i r3 show ?thesis by simp
qed

text \<open>
  C7. In every state of a session the active image is the cleaned image when clean mode
  is on and a cleaned image is cached, and the original otherwise. A Generate run on an
  uploaded image calls the analysis with the active image and the selected category and,
  when that resolves, the visualization with the same image and category and a count of 4,
  and every request the run sends carries that image's payload.
\<close>

theorem handleAnalysis_uses_activeImage:
  "(reachable s \<longrightarrow>
      activeImage s =
        (if isCleanMode s \<and> cleanImage s \<noteq> None then cleanImage s else originalImage s))
   \<and> (truthy_string (originalImage s) \<and> activeImage s = Some img \<longrightarrow>
        service_calls (snd (handleAnalysis P e1 e2 s)) =
          (case snd (analyzeRoomDesign P e1 img (selectedCategory s)) of
             Inl err \<Rightarrow> [AnalyzeRoomDesign img (selectedCategory s)]
           | Inr a \<Rightarrow> [AnalyzeRoomDesign img (selectedCategory s),
                        GenerateDesignVisualizations img (selectedCategory s) 4])
        \<and> (\<forall>r \<in> set (remote_requests (snd (handleAnalysis P e1 e2 s))).
              request_image r = Some (cleanBase64 img)))"
proof (intro conjI impI)
  assume "reachable s"
  then show "activeImage s =
        (if isCleanMode s \<and> cleanImage s \<noteq> None then cleanImage s else originalImage s)"
    by (rule reachable_active)
next
  assume h: "truthy_string (originalImage s) \<and> activeImage s = Some img"
  then show "service_calls (snd (handleAnalysis P e1 e2 s)) =
          (case snd (analyzeRoomDesign P e1 img (selectedCategory s)) of
             Inl err \<Rightarrow> [AnalyzeRoomDesign img (selectedCategory s)]
           | Inr a \<Rightarrow> [AnalyzeRoomDesign img (selectedCategory s),
                        GenerateDesignVisualizations img (selectedCategory s) 4])"
    by (simp add: handleAnalysis_trace)
next
  assume h: "truthy_string (originalImage s) \<and> activeImage s = Some img"
  then show "\<forall>r \<in> set (remote_requests (snd (handleAnalysis P e1 e2 s))).
              request_image r = Some (cleanBase64 img)"
    by (auto simp: handleAnalysis_trace split: sum.splits
             dest: analyze_requests_image visualizations_requests_image)
qed

theorem handleAnalysis_uses_activeImage_witness:
  "reachable tidied \<and> truthy_string (originalImage tidied)
   \<and> isCleanMode tidied \<and> cleanImage tidied = Some ''data:image/png;base64,A''
   \<and> activeImage tidied = Some ''data:image/png;base64,A''
   \<and> service_calls
        (snd (handleAnalysis JSON_parse_fragment (world_text four_items_text) world_images tidied))
      = [AnalyzeRoomDesign ''data:image/png;base64,A'' LIGHTING,
         GenerateDesignVisualizations ''data:image/png;base64,A'' LIGHTING 4]
   \<and> list_all (\<lambda>r. request_image r = Some ''A'')
        (remote_requests
          (snd (handleAnalysis JSON_parse_fragment (world_text four_items_text) world_images
                  tidied)))"
proof -
  have c: "cleanImage tidied = Some ''data:image/png;base64,A''" "isCleanMode tidied"
    by (simp_all add: tidied_eq)
  have o: "truthy_string (originalImage tidied)" "selectedCategory tidied = LIGHTING"
    by (simp_all add: tidied_eq uploaded_fields)
  have a: "activeImage tidied = Some ''data:image/png;base64,A''"
    using handleAnalysis_uses_activeImage[of tidied] reachable_tidied c by simp
  have calls: "service_calls
        (snd (handleAnalysis JSON_parse_fragment (world_text four_items_text) world_images tidied))
      = [AnalyzeRoomDesign ''data:image/png;base64,A'' LIGHTING,
         GenerateDesignVisualizations ''data:image/png;base64,A'' LIGHTING 4]"
    using handleAnalysis_uses_activeImage[of tidied "''data:image/png;base64,A''"
            JSON_parse_fragment "world_text four_items_text" world_images] o a
    by (simp add: analyze_four)
  have b: "cleanBase64 ''data:image/png;base64,A'' = ''A''"
    by (simp add: cleanBase64_def)
  have "\<forall>r \<in> set (remote_requests
          (snd (handleAnalysis JSON_parse_fragment (world_text four_items_text) world_images
                  tidied))).
          request_image r = Some (cleanBase64 ''data:image/png;base64,A'')"
    using handleAnalysis_uses_activeImage[of tidied "''data:image/png;base64,A''"
            JSON_parse_fragment "world_text four_items_text" world_images] o a
    by blast
  then have reqs: "list_all (\<lambda>r. request_image r = Some ''A'')
        (remote_requests
          (snd (handleAnalysis JSON_parse_fragment (world_text four_items_text) world_images
                  tidied)))"
    unfolding b by (simp add: list_all_iff)
  from reachable_tidied c o a calls reqs show ?thesis by blast
qed

subsection \<open>The clean checkbox\<close>

text \<open>
  C6. In a session with a cached cleaned image, unchecking the box only switches clean
  mode off: nothing is sent, no loading state is set, the cleaned image stays cached and
  the active image is the original. Checking the box again only switches clean mode back
  on: nothing is sent, whatever the remote model would answer, and the active image is the
  cached cleaned image.
\<close>

theorem handleCleanCheck_toggle_cached:
  "reachable s \<and> cleanImage s \<noteq> None \<longrightarrow>
     handleCleanCheck e False s = (s\<lparr>isCleanMode := False\<rparr>, [])
     \<and> cleanImage (fst (handleCleanCheck e False s)) = cleanImage s
     \<and> activeImage (fst (handleCleanCheck e False s)) = originalImage s
     \<and> handleCleanCheck e' True (fst (handleCleanCheck e False s)) = (s\<lparr>isCleanMode := True\<rparr>, [])
     \<and> activeImage (fst (handleCleanCheck e' True (fst (handleCleanCheck e False s))))
         = cleanImage s"
proof
  assume h: "reachable s \<and> cleanImage s \<noteq> None"
  then have inv: "session_inv s" by (simp add: reachable_inv)
  from h inv obtain original cleaned where
    o: "originalImage s = Some original" "original \<noteq> []" and
    c: "cleanImage s = Some cleaned" "cleaned \<noteq> []"
    by (cases "originalImage s"; cases "cleanImage s") (auto simp: session_inv_def)
  have off: "handleCleanCheck e False s = (s\<lparr>isCleanMode := False\<rparr>, [])"
    by (simp add: handleCleanCheck_def o)
  have on: "handleCleanCheck e' True (s\<lparr>isCleanMode := False\<rparr>) = (s\<lparr>isCleanMode := True\<rparr>, [])"
    by (simp add: handleCleanCheck_def o c)
  show "handleCleanCheck e False s = (s\<lparr>isCleanMode := False\<rparr>, [])
     \<and> cleanImage (fst (handleCleanCheck e False s)) = cleanImage s
     \<and> activeImage (fst (handleCleanCheck e False s)) = originalImage s
     \<and> handleCleanCheck e' True (fst (handleCleanCheck e False s)) = (s\<lparr>isCleanMode := True\<rparr>, [])
     \<and> activeImage (fst (handleCleanCheck e' True (fst (handleCleanCheck e False s))))
         = cleanImage s"
    by (simp add: off on activeImage_def c)
qed

theorem handleCleanCheck_toggle_cached_witness:
  "reachable tidied \<and> cleanImage tidied = Some ''data:image/png;base64,A''
   \<and> handleCleanCheck world_down False tidied = (tidied\<lparr>isCleanMode := False\<rparr>, [])
   \<and> cleanImage (fst (handleCleanCheck world_down False tidied))
        = Some ''data:image/png;base64,A''
   \<and> activeImage (fst (handleCleanCheck world_down False tidied))
        = Some ''data:image/jpeg;base64,QUJD''
   \<and> handleCleanCheck world_down True (fst (handleCleanCheck world_down False tidied))
        = (tidied, [])
   \<and> activeImage (fst (handleCleanCheck world_down True
                          (fst (handleCleanCheck world_down False tidied))))
        = Some ''data:image/png;base64,A''"
proof -
  have c: "cleanImage tidied = Some ''data:image/png;base64,A''"
    by (simp add: tidied_eq)
  have o: "originalImage tidied = Some ''data:image/jpeg;base64,QUJD''"
    by (simp add: tidied_eq uploaded_fields)
  have m: "tidied\<lparr>isCleanMode := True\<rparr> = tidied" by (simp add: tidied_eq)
  have nn: "cleanImage tidied \<noteq> None" by (simp add: c)
  have all: "handleCleanCheck world_down False tidied = (tidied\<lparr>isCleanMode := False\<rparr>, [])
     \<and> cleanImage (fst (handleCleanCheck world_down False tidied)) = cleanImage tidied
     \<and> activeImage (fst (handleCleanCheck world_down False tidied)) = originalImage tidied
     \<and> handleCleanCheck world_down True (fst (handleCleanCheck world_down False tidied))
          = (tidied\<lparr>isCleanMode := True\<rparr>, [])
     \<and> activeImage (fst (handleCleanCheck world_down True
                            (fst (handleCleanCheck world_down False tidied))))
         = cleanImage tidied"
    using handleCleanCheck_toggle_cached[of tidied world_down world_down] reachable_tidied nn
    by blast
  show ?thesis
    unfolding c[symmetric] o[symmetric]
    using all reachable_tidied unfolding m by blast
qed

subsection \<open>Upload\<close>

text \<open>
  C4, as the code has it. An upload sends nothing, makes the new image the original,
  drops the cached cleaned image, switches clean mode off and clears advice,
  visualizations and error; a second upload leaves the state the second alone would have
  left. The loading state is not written: it stays what it was, which is Idle in any
  session whose handlers have run to their end.
\<close>

theorem processFile_replaces_session:
  "snd (processFile img s) = []
   \<and> originalImage (fst (processFile img s)) = Some img
   \<and> cleanImage (fst (processFile img s)) = None
   \<and> isCleanMode (fst (processFile img s)) = False
   \<and> advice (fst (processFile img s)) = JArray []
   \<and> visualizations (fst (processFile img s)) = []
   \<and> error (fst (processFile img s)) = None
   \<and> loadingState (fst (processFile img s)) = loadingState s
   \<and> selectedCategory (fst (processFile img s)) = selectedCategory s
   \<and> fst (processFile imageB (fst (processFile imageA s))) = fst (processFile imageB s)
   \<and> (reachable s \<longrightarrow> loadingState (fst (processFile img s)) = Idle)"
  using reachable_inv[of s] by (auto simp: processFile_def session_inv_def)

theorem processFile_replaces_session_witness:
  "reachable tidied
   \<and> loadingState (fst (processFile ''data:image/jpeg;base64,REVG'' tidied)) = Idle
   \<and> cleanImage tidied = Some ''data:image/png;base64,A''
   \<and> cleanImage (fst (processFile ''data:image/jpeg;base64,REVG'' tidied)) = None"
proof -
  have "loadingState (fst (processFile ''data:image/jpeg;base64,REVG'' tidied)) = Idle"
    using processFile_replaces_session[of "''data:image/jpeg;base64,REVG''" tidied]
      reachable_tidied by blast
  moreover have "cleanImage (fst (processFile ''data:image/jpeg;base64,REVG'' tidied)) = None"
    using processFile_replaces_session[of "''data:image/jpeg;base64,REVG''" tidied] by blast
  moreover have "cleanImage tidied = Some ''data:image/png;base64,A''"
    by (simp add: tidied_eq)
  ultimately show ?thesis using reachable_tidied by blast
qed

text \<open>
  A file whose reading ends while an analysis of the current image is in flight: the
  upload leaves the loading state at Analyzing.
\<close>

theorem processFile_keeps_loadingState:
  "loadingState (fst (processFile ''data:image/jpeg;base64,REVG''
      (uploaded\<lparr>loadingState := Analyzing\<rparr>))) = Analyzing"
  by (simp add: processFile_def)

subsection \<open>Generate while other handlers run\<close>

lemma visualize_images_4:
  "snd (generateDesignVisualizations world_images img c 4) =
     Inr [''data:image/png;base64,A'', ''data:image/png;base64,AA'',
          ''data:image/png;base64,AAA'', ''data:image/png;base64,AAAA'']"
proof -
  obtain v1 v2 v3 v4 where v: "variations c = [v1, v2, v3, v4]"
    using variations_four by blast
  show ?thesis
    by (simp add: generateDesignVisualizations_def getClient_def world_images_def v
      slice_4 generate_variation_def)
qed

text \<open>
  Cut at their awaits and run with nothing in between, the two handlers are the handlers
  modelled in one piece above: same final state, same loading states, nothing left in
  flight.
\<close>

lemma handleAnalysis_begin_active:
  assumes "truthy_string (originalImage s)" and "activeImage s = Some img"
  shows "handleAnalysis_begin s =
     (s\<lparr>loadingState := Analyzing, advice := JArray [], visualizations := [], error := None\<rparr>,
      [Analyzing], [PendingAnalyze img (selectedCategory s)])"
  using assms
  by (cases "originalImage s"; cases "cleanImage s")
     (auto simp: handleAnalysis_begin_def activeImage_def Let_def split: if_splits)

lemma handleAnalysis_in_segments:
  assumes t: "truthy_string (originalImage s)" and i: "loadingState s = Idle"
    and a: "activeImage s = Some img"
  shows "run P (GenerateClicked # AnalyzeSettles e1 #
               (case snd (analyzeRoomDesign P e1 img (selectedCategory s)) of
                  Inl err \<Rightarrow> []
                | Inr adv \<Rightarrow> [VisualizeSettles e2]))
           (start_system s) =
     Some \<lparr>app = fst (handleAnalysis P e1 e2 s), in_flight = [],
           shown = loading_trace s (snd (handleAnalysis P e1 e2 s))\<rparr>"
proof -
  obtain reqs r where ar: "analyzeRoomDesign P e1 img (selectedCategory s) = (reqs, r)"
    by (cases "analyzeRoomDesign P e1 img (selectedCategory s)")
  obtain reqs' r' where
    vr: "generateDesignVisualizations e2 img (selectedCategory s) 4 = (reqs', r')"
    by (cases "generateDesignVisualizations e2 img (selectedCategory s) 4")
  note b = handleAnalysis_begin_active[OF t a]
  consider (af) err where "r = Inl err"
    | (vf) adv err where "r = Inr adv" "r' = Inl err"
    | (ok) adv urls where "r = Inr adv" "r' = Inr urls"
    by (cases r; cases r') auto
  then show ?thesis
  proof cases
    case af
    with ar have h: "analyzeRoomDesign P e1 img (selectedCategory s) = (reqs, Inl err)"
      by simp
    show ?thesis
      unfolding handleAnalysis_analysis_fails[OF t a h]
      by (simp add: h t i b start_system_def handleAnalysis_analyzed_def loading_trace_def)
  next
    case vf
    with ar vr have h: "analyzeRoomDesign P e1 img (selectedCategory s) = (reqs, Inr adv)"
      and h': "generateDesignVisualizations e2 img (selectedCategory s) 4 = (reqs', Inl err)"
      by simp_all
    show ?thesis
      unfolding handleAnalysis_visualization_fails[OF t a h h']
      by (simp add: h h' t i b start_system_def handleAnalysis_analyzed_def
            handleAnalysis_visualized_def loading_trace_def)
  next
    case ok
    with ar vr have h: "analyzeRoomDesign P e1 img (selectedCategory s) = (reqs, Inr adv)"
      and h': "generateDesignVisualizations e2 img (selectedCategory s) 4 = (reqs', Inr urls)"
      by simp_all
    show ?thesis
      unfolding handleAnalysis_succeeds[OF t a h h']
      by (simp add: h h' t i b start_system_def handleAnalysis_analyzed_def
            handleAnalysis_visualized_def loading_trace_def)
  qed
qed

lemma handleCleanCheck_in_segments:
  assumes t: "truthy_string (originalImage s)" and i: "loadingState s = Idle"
  shows "run P (CleanToggled #
               (if isCleanMode s \<or> truthy_string (cleanImage s) then [] else [CleanSettles e]))
           (start_system s) =
     Some \<lparr>app = fst (handleCleanCheck e (\<not> isCleanMode s) s), in_flight = [],
           shown = loading_trace s (snd (handleCleanCheck e (\<not> isCleanMode s) s))\<rparr>"
proof -
  from t obtain original where o: "originalImage s = Some original" "original \<noteq> []"
    by (cases "originalImage s") auto
  obtain reqs r where c: "cleanRoomImage e original = (reqs, r)"
    by (cases "cleanRoomImage e original")
  show ?thesis
  proof (cases "isCleanMode s \<or> truthy_string (cleanImage s)")
    case True
    then show ?thesis
      by (auto simp: o i start_system_def handleCleanCheck_begin_def handleCleanCheck_def
            loading_trace_def)
  next
    case False
    then show ?thesis
      by (cases r)
         (simp_all add: o i c start_system_def handleCleanCheck_begin_def handleCleanCheck_def
            handleCleanCheck_settled_def loading_trace_def)
  qed
qed

text \<open>
  C5 asks that the loading states of a Generate run be exactly Idle, Analyzing,
  Visualizing, Idle (or end early at Idle on failure), with never two phases in flight.
  The code does not keep that. After Generate is clicked on the uploaded image the button
  is disabled, so a second click is refused; but the clean checkbox is disabled only while
  cleaning. Clicked while the analysis is in flight, it puts the cleaning call in flight
  beside the analysis and sets the state to Cleaning. The states of that Generate run are
  then Idle, Analyzing, Cleaning, Visualizing, Idle, and the run ends Idle with the
  cleaning call still in flight.
\<close>

theorem generate_overlaps_cleaning:
  "run JSON_parse_fragment [GenerateClicked, CleanToggled] (start_system uploaded) =
     Some \<lparr>app = uploaded\<lparr>loadingState := Cleaning\<rparr>,
           in_flight = [PendingAnalyze ''data:image/jpeg;base64,QUJD'' LIGHTING,
                        PendingClean ''data:image/jpeg;base64,QUJD''],
           shown = [Idle, Analyzing, Cleaning]\<rparr>
   \<and> map_option shown
        (run JSON_parse_fragment
           [GenerateClicked, CleanToggled, AnalyzeSettles (world_text four_items_text),
            VisualizeSettles world_images]
           (start_system uploaded))
       = Some [Idle, Analyzing, Cleaning, Visualizing, Idle]
   \<and> map_option in_flight
        (run JSON_parse_fragment
           [GenerateClicked, CleanToggled, AnalyzeSettles (world_text four_items_text),
            VisualizeSettles world_images]
           (start_system uploaded))
       = Some [PendingClean ''data:image/jpeg;base64,QUJD'']
   \<and> run JSON_parse_fragment [GenerateClicked, GenerateClicked] (start_system uploaded) = None"
  by (simp add: start_system_def uploaded_def processFile_def initial_state_def
        handleAnalysis_begin_def handleCleanCheck_begin_def handleAnalysis_analyzed_def
        handleAnalysis_visualized_def analyze_four visualize_images_4)

end
